theory Spec2Isabelle
  imports Main
begin

chapter \<open>The conversion of notes into blocks\<close>

text \<open>
  The program mirrors the notes of a reference manager into a page made of typed blocks.
  This theory embeds the part that turns the HTML of a note into blocks and partitions
  the blocks into batches, and proves properties of it.

  The sources hold several variants of the same modules side by side. The embedding
  covers the classifier (\<^verbatim>\<open>parse-node\<close>), the functions that all variants of
  \<^verbatim>\<open>html-to-notion\<close> share (trimming, rich text, parent blocks, lists), and these
  variants, told apart by a suffix where a name would clash:
  \<^item> the synchronous conversion of \<^verbatim>\<open>html-to-notion.ts\<close>, in which an annotation paragraph
    becomes a quote (\<open>_quote\<close>);
  \<^item> the synchronous conversion in which an annotation paragraph becomes a paragraph with
    a callout, a comment paragraph and a divider as children (\<open>_nested\<close>);
  \<^item> the asynchronous conversion, which resolves colours, handles images and returns
    the three blocks themselves (\<open>_async\<close>);
  \<^item> the two variants of \<^verbatim>\<open>buildNoteBlockBatches\<close>, without and with the grouping by
    colour (\<open>_grouped\<close>).

  Functions of modules that are not among the sources are parameters of the functions
  that call them; an exception is a value \<open>Inl\<close> of a sum type.
\<close>


section \<open>Strings\<close>

text \<open>
  A JavaScript string is a sequence of UTF-16 code units. The model writes it as a
  \<^typ>\<open>string\<close> whose characters stand for the code units below 256; of these, the ones
  that \<^verbatim>\<open>trim\<close> removes (white space and line terminators) are tab, line feed, vertical
  tab, form feed, carriage return, space and the no-break space.
\<close>

definition isWhiteSpace :: "char \<Rightarrow> bool" where
  "isWhiteSpace c \<longleftrightarrow> (of_char c :: nat) \<in> {9, 10, 11, 12, 13, 32, 160}"

definition trimStart :: "string \<Rightarrow> string" where
  "trimStart s = dropWhile isWhiteSpace s"

definition trimEnd :: "string \<Rightarrow> string" where
  "trimEnd s = rev (dropWhile isWhiteSpace (rev s))"

definition trim :: "string \<Rightarrow> string" where
  "trim s = trimEnd (trimStart s)"

text \<open>
  \<^verbatim>\<open>toLowerCase\<close> and \<^verbatim>\<open>toUpperCase\<close> on the letters below 256: the ASCII letters and the
  Latin-1 letters (the multiplication and division signs between them have no case).
  \<^verbatim>\<open>toUpperCase\<close> is only ever applied to colour tokens, which are ASCII.
\<close>

definition toLowerChar :: "char \<Rightarrow> char" where
  "toLowerChar c =
     (let n = (of_char c :: nat)
      in if (65 \<le> n \<and> n \<le> 90) \<or> (192 \<le> n \<and> n \<le> 222 \<and> n \<noteq> 215)
         then char_of (n + 32) else c)"

definition toLowerCase :: "string \<Rightarrow> string" where
  "toLowerCase s = map toLowerChar s"

definition toUpperChar :: "char \<Rightarrow> char" where
  "toUpperChar c =
     (let n = (of_char c :: nat)
      in if 97 \<le> n \<and> n \<le> 122 then char_of (n - 32) else c)"

definition toUpperCase :: "string \<Rightarrow> string" where
  "toUpperCase s = map toUpperChar s"

text \<open>
  \<^verbatim>\<open>slice(start, end)\<close> of arrays and strings alike: a negative index counts from the
  end, and both indices are clamped.
\<close>

definition slice :: "int \<Rightarrow> int \<Rightarrow> 'a list \<Rightarrow> 'a list" where
  "slice start end xs =
     (let len = int (length xs);
          k = (if start < 0 then max (len + start) 0 else min start len);
          final = (if end < 0 then max (len + end) 0 else min end len)
      in take (nat (final - k)) (drop (nat k) xs))"

text \<open>
  \<^verbatim>\<open>s.split(/#/)\<close>: the pieces between the separators, in order. There is one piece
  more than there are separators, so the array is never empty: the result is the first
  piece and the list of the others, as the destructuring \<^verbatim>\<open>[comment, ...tagParts]\<close>
  reads it.
\<close>

fun splitOn :: "char \<Rightarrow> string \<Rightarrow> string \<times> string list" where
  "splitOn sep [] = ([], [])"
| "splitOn sep (c # cs) =
     (let (p, ps) = splitOn sep cs
      in if c = sep then ([], p # ps) else (c # p, ps))"

text \<open>
  \<^verbatim>\<open>s.replace(pattern, replacement)\<close> with a string pattern: the first occurrence only.
\<close>

fun replaceFirst :: "string \<Rightarrow> string \<Rightarrow> string \<Rightarrow> string" where
  "replaceFirst pat rep [] = (if pat = [] then rep else [])"
| "replaceFirst pat rep (c # cs) =
     (if take (length pat) (c # cs) = pat then rep @ drop (length pat) (c # cs)
      else c # replaceFirst pat rep cs)"

section \<open>Colours, annotations and rich text\<close>

text \<open>
  Modelled from the spec: the type \<^verbatim>\<open>Color\<close> (module \<^verbatim>\<open>notion-types\<close>, not among the
  sources at hand), which the specification describes as a semantic background or
  foreground token. The tokens are those of the destination's block model: a default,
  nine foreground colours and their nine background variants. The sources name the
  default and eight of the backgrounds.
\<close>

datatype color =
    Default | Gray | Brown | Orange | Yellow | Green | Blue | Purple | Pink | Red
  | Gray_background | Brown_background | Orange_background | Yellow_background
  | Green_background | Blue_background | Purple_background | Pink_background
  | Red_background

fun colorToken :: "color \<Rightarrow> string" where
  "colorToken Default = ''default''"
| "colorToken Gray = ''gray''"
| "colorToken Brown = ''brown''"
| "colorToken Orange = ''orange''"
| "colorToken Yellow = ''yellow''"
| "colorToken Green = ''green''"
| "colorToken Blue = ''blue''"
| "colorToken Purple = ''purple''"
| "colorToken Pink = ''pink''"
| "colorToken Red = ''red''"
| "colorToken Gray_background = ''gray_background''"
| "colorToken Brown_background = ''brown_background''"
| "colorToken Orange_background = ''orange_background''"
| "colorToken Yellow_background = ''yellow_background''"
| "colorToken Green_background = ''green_background''"
| "colorToken Blue_background = ''blue_background''"
| "colorToken Purple_background = ''purple_background''"
| "colorToken Pink_background = ''pink_background''"
| "colorToken Red_background = ''red_background''"

text \<open>
  \<^verbatim>\<open>Annotations\<close>: every key is optional, and an object spread
  \<^verbatim>\<open>{...a, ...b}\<close> takes each key from \<open>b\<close> where \<open>b\<close> has it and from \<open>a\<close> otherwise.
\<close>

record annotations =
  bold :: "bool option"
  italic :: "bool option"
  strikethrough :: "bool option"
  underline :: "bool option"
  code :: "bool option"
  color :: "color option"

definition noAnnotations :: annotations where
  "noAnnotations = \<lparr>bold = None, italic = None, strikethrough = None, underline = None,
     code = None, color = None\<rparr>"

definition override :: "'a option \<Rightarrow> 'a option \<Rightarrow> 'a option" where
  "override a b = (case b of None \<Rightarrow> a | Some v \<Rightarrow> Some v)"

definition spread :: "annotations \<Rightarrow> annotations \<Rightarrow> annotations" where
  "spread a b = \<lparr>bold = override (bold a) (bold b), italic = override (italic a) (italic b),
     strikethrough = override (strikethrough a) (strikethrough b),
     underline = override (underline a) (underline b),
     code = override (code a) (code b), color = override (color a) (color b)\<rparr>"

text \<open>
  One item of a \<^verbatim>\<open>RichText\<close> array: a text span
  \<^verbatim>\<open>{text: {content, link}, annotations}\<close> or an equation
  \<^verbatim>\<open>{equation: {expression}}\<close>. The constructor stands for the key (and for the
  \<^verbatim>\<open>type\<close> tag, which repeats the key where the source writes it); a span without an
  \<^verbatim>\<open>annotations\<close> key carries \<^const>\<open>noAnnotations\<close>.
\<close>

datatype rich_text_item =
    TextItem string "string option" annotations
  | EquationItem string

type_synonym rich_text = "rich_text_item list"

definition plainText :: "string \<Rightarrow> rich_text_item" where
  "plainText s = TextItem s None noAnnotations"

section \<open>Trimming (html-to-notion: trimRichText)\<close>

text \<open>
  The inner function \<^verbatim>\<open>updateContent(index, updater)\<close>, with the array it closes over.
\<close>

definition updateContent :: "rich_text \<Rightarrow> nat \<Rightarrow> (string \<Rightarrow> string) \<Rightarrow> rich_text" where
  "updateContent richText index updater =
     (if index < length richText then
        (case richText ! index of
           EquationItem e \<Rightarrow> [EquationItem e]
         | TextItem c l a \<Rightarrow>
             (let content = updater c
              in if content = [] then [] else [TextItem content l a]))
      else [])"

definition trimRichText :: "rich_text \<Rightarrow> rich_text" where
  "trimRichText richText =
     (if length richText = 0 then richText
      else if length richText = 1 then updateContent richText 0 trim
      else
        (let first = updateContent richText 0 trimStart;
             middle = slice 1 (- 1) richText;
             last = updateContent richText (length richText - 1) trimEnd
         in first @ middle @ last))"

section \<open>Colour normalisation (html-to-notion: getNotionColorFromHex)\<close>

definition colorMap :: "(string \<times> color) list" where
  "colorMap =
     [(''#ffd400'', Yellow_background),
      (''#ff6666'', Red_background),
      (''#ffb437'', Orange_background),
      (''#5ff036'', Green_background),
      (''#50c8e5'', Blue_background),
      (''#a28ae5'', Purple_background),
      (''#e56eee'', Pink_background),
      (''#aaaaaa'', Gray_background),
      (''rgb(255, 212, 0)'', Yellow_background),
      (''rgb(255, 102, 102)'', Red_background),
      (''rgb(255, 180, 55)'', Orange_background),
      (''rgb(95, 240, 54)'', Green_background),
      (''rgb(80, 200, 229)'', Blue_background),
      (''rgb(162, 138, 229)'', Purple_background),
      (''rgb(229, 110, 238)'', Pink_background),
      (''rgb(170, 170, 170)'', Gray_background)]"

text \<open>
  \<^verbatim>\<open>colorMap[normalizedColor] || 'yellow_background'\<close>. The table is an object literal,
  so a key it does not own is read from \<^verbatim>\<open>Object.prototype\<close>. A normalised key has no
  upper-case letter, and of the members of \<^verbatim>\<open>Object.prototype\<close> only \<^verbatim>\<open>constructor\<close> and
  \<^verbatim>\<open>__proto__\<close> are spelled without one: for these two the lookup yields an object, which
  is truthy and is returned as it is, not a colour token.
\<close>

datatype color_lookup = Token color | PrototypeMember string

definition getNotionColorFromHex :: "string \<Rightarrow> color_lookup" where
  "getNotionColorFromHex hexColor =
     (let normalizedColor = trim (toLowerCase hexColor)
      in case map_of colorMap normalizedColor of
           Some c \<Rightarrow> Token c
         | None \<Rightarrow>
             if normalizedColor = ''constructor'' \<or> normalizedColor = ''__proto__''
             then PrototypeMember normalizedColor
             else Token Yellow_background)"


section \<open>Batch partitioning (sync-notes: buildNoteBlockBatches)\<close>

text \<open>
  The value of \<^verbatim>\<open>Math.max(1, Math.ceil(blocks.length / batchSize))\<close>. With a batch size of
  zero the quotient is \<^verbatim>\<open>NaN\<close> for an empty array and \<^verbatim>\<open>Infinity\<close> otherwise, and
  \<^verbatim>\<open>Math.max\<close> keeps both.
\<close>

datatype batch_count = Count int | Infinity | NaN

definition numBatches :: "int \<Rightarrow> nat \<Rightarrow> batch_count" where
  "numBatches batchSize n =
     (if batchSize = 0 then (if n = 0 then NaN else Infinity)
      else Count (max 1 (- ((- int n) div batchSize))))"

text \<open>
  The loop \<^verbatim>\<open>for (let i = 0; i < numBatches; i++)\<close> for a finite bound, with the
  accumulated \<^verbatim>\<open>batches\<close>.
\<close>

function batchLoop :: "int \<Rightarrow> int \<Rightarrow> int \<Rightarrow> 'a list \<Rightarrow> 'a list list \<Rightarrow> 'a list list" where
  "batchLoop i n batchSize blocks batches =
     (if i < n then
        (let start = i * batchSize;
             end = min (start + batchSize) (int (length blocks));
             batch = slice start end blocks
         in batchLoop (i + 1) n batchSize blocks
              (if length batch > 0 then batches @ [batch] else batches))
      else batches)"
  by pat_completeness auto
termination
  by (relation "measure (\<lambda>(i, n, _, _, _). nat (n - i))") auto

declare batchLoop.simps [simp del]

text \<open>
  The batching tail of \<^verbatim>\<open>buildNoteBlockBatches\<close>, from the \<^verbatim>\<open>blocks\<close> to send and the
  configured \<^verbatim>\<open>LIMITS.BLOCK_ARRAY_ELEMENTS\<close> (the constant is declared outside the
  sources at hand, so it is a parameter). With \<^verbatim>\<open>numBatches = NaN\<close> the loop condition is
  false at once; with \<^verbatim>\<open>Infinity\<close> it is true forever, no batch is ever pushed and the
  function does not return: \<open>None\<close>.
\<close>

definition blockBatches :: "int \<Rightarrow> 'a list \<Rightarrow> 'a list list option" where
  "blockBatches limit blocks =
     (let batchSize = min limit 100 in
      case numBatches batchSize (length blocks) of
        NaN \<Rightarrow> Some []
      | Infinity \<Rightarrow> None
      | Count n \<Rightarrow> Some (batchLoop 0 n batchSize blocks []))"

text \<open>
  The partition as the specification words it: consecutive slices of at most \<open>n\<close>
  elements, none of them empty.
\<close>

fun chunks :: "nat \<Rightarrow> 'a list \<Rightarrow> 'a list list" where
  "chunks n xs = (if n = 0 \<or> xs = [] then [] else take n xs # chunks n (drop n xs))"

declare chunks.simps [simp del]


section \<open>The document tree\<close>

text \<open>
  The parsed document is the caller's; the conversion only reads it. A node is a text
  node, a comment, or an element with its \<^verbatim>\<open>tagName\<close> (upper case, as the DOM reports it
  for HTML), its \<^verbatim>\<open>classList\<close>, its string-valued properties by name (the conversion
  reads \<^verbatim>\<open>href\<close> and \<^verbatim>\<open>type\<close>; the colour resolver reads the background colour of the
  inline style) and its \<^verbatim>\<open>childNodes\<close>. The tests \<^verbatim>\<open>isHTMLElement\<close> and \<^verbatim>\<open>isTextNode\<close> of
  \<^verbatim>\<open>dom-utils\<close> tell the kinds of node apart.
\<close>

datatype node =
    TextNode string
  | CommentNode string
  | Element string "string list" "(string \<times> string) list" "node list"

fun isHTMLElement :: "node \<Rightarrow> bool" where
  "isHTMLElement (Element _ _ _ _) = True"
| "isHTMLElement _ = False"

fun isTextNode :: "node \<Rightarrow> bool" where
  "isTextNode (TextNode _) = True"
| "isTextNode _ = False"

fun tagName :: "node \<Rightarrow> string option" where
  "tagName (Element t _ _ _) = Some t"
| "tagName _ = None"

fun classList :: "node \<Rightarrow> string list" where
  "classList (Element _ cl _ _) = cl"
| "classList _ = []"

fun property :: "string \<Rightarrow> node \<Rightarrow> string option" where
  "property k (Element _ _ ps _) = map_of ps k"
| "property k _ = None"

fun childNodes :: "node \<Rightarrow> node list" where
  "childNodes (Element _ _ _ cs) = cs"
| "childNodes _ = []"

text \<open>\<^verbatim>\<open>element.children\<close>: the child nodes that are elements.\<close>

definition childElements :: "node \<Rightarrow> node list" where
  "childElements n = filter isHTMLElement (childNodes n)"

text \<open>
  \<^verbatim>\<open>textContent\<close>: the data of a text node or comment; for an element, the data of its
  text-node descendants in document order.
\<close>

fun textData :: "node \<Rightarrow> string" where
  "textData (TextNode s) = s"
| "textData (CommentNode s) = []"
| "textData (Element _ _ _ cs) = concat (map textData cs)"

fun textContent :: "node \<Rightarrow> string" where
  "textContent (TextNode s) = s"
| "textContent (CommentNode s) = s"
| "textContent (Element _ _ _ cs) = concat (map textData cs)"

text \<open>
  The nodes of a forest in document order, each with its \<^verbatim>\<open>nextSibling\<close>.
\<close>

fun nextOf :: "node list \<Rightarrow> node option" where
  "nextOf [] = None"
| "nextOf (n # _) = Some n"

fun inOrder :: "node list \<Rightarrow> (node \<times> node option) list" where
  "inOrder [] = []"
| "inOrder (TextNode s # ns) = (TextNode s, nextOf ns) # inOrder ns"
| "inOrder (CommentNode s # ns) = (CommentNode s, nextOf ns) # inOrder ns"
| "inOrder (Element t cl ps cs # ns) =
     (Element t cl ps cs, nextOf ns) # inOrder cs @ inOrder ns"

text \<open>
  \<^verbatim>\<open>querySelector\<close> for the selectors of the sources, each a test on one element: the
  first descendant in document order that passes it, here together with its next
  sibling; and \<^verbatim>\<open>getElementsByTagName\<close>, all descendants with the tag.

  The HTML of a note has no doctype, so its document is in quirks mode, where a class
  selector such as \<^verbatim>\<open>.highlight\<close> matches a class name whatever the case of its ASCII
  letters. (\<^verbatim>\<open>classList.contains\<close>, which the classifier uses, always compares exactly.)
\<close>

definition asciiLowerChar :: "char \<Rightarrow> char" where
  "asciiLowerChar c =
     (let n = (of_char c :: nat)
      in if 65 \<le> n \<and> n \<le> 90 then char_of (n + 32) else c)"

definition asciiLowerCase :: "string \<Rightarrow> string" where
  "asciiLowerCase s = map asciiLowerChar s"

definition querySelectorWithNext :: "(node \<Rightarrow> bool) \<Rightarrow> node \<Rightarrow> (node \<times> node option) option" where
  "querySelectorWithNext sel n = find (\<lambda>(m, _). sel m) (inOrder (childNodes n))"

definition querySelector :: "(node \<Rightarrow> bool) \<Rightarrow> node \<Rightarrow> node option" where
  "querySelector sel n = map_option fst (querySelectorWithNext sel n)"

definition byClass :: "string \<Rightarrow> node \<Rightarrow> bool" where
  "byClass c n \<longleftrightarrow>
     isHTMLElement n
     \<and> list_ex (\<lambda>name. asciiLowerCase name = asciiLowerCase c) (classList n)"

definition byTag :: "string \<Rightarrow> node \<Rightarrow> bool" where
  "byTag t n \<longleftrightarrow> tagName n = Some t"

definition getElementsByTagName :: "string \<Rightarrow> node \<Rightarrow> node list" where
  "getElementsByTagName t n = filter (byTag t) (map fst (inOrder (childNodes n)))"

section \<open>Blocks\<close>

datatype block_type =
    Paragraph | Heading_1 | Heading_2 | Heading_3
  | Bulleted_list_item | Numbered_list_item | Quote | Code

text \<open>
  A block object of the destination. \<open>Block t rich_text children color\<close> is the object
  \<^verbatim>\<open>{[t]: {rich_text, children, color}}\<close> that \<^verbatim>\<open>keyValue\<close> and the block literals of the
  sources build, where \<^verbatim>\<open>children\<close> and \<^verbatim>\<open>color\<close> may be absent; a callout has the same
  three fields; a divider has none; an image block holds the external URL. As for rich
  text, the constructor stands for the key and for the \<^verbatim>\<open>type\<close> tag.
\<close>

datatype block =
    Block block_type rich_text "block list option" "color option"
  | Callout rich_text "block list option" "color option"
  | Divider
  | Image string

section \<open>Node classification (parse-node)\<close>

datatype parsed_node =
    BlockNode block_type bool annotations "color option" node
  | BrNode
  | InlineMathNode node string
  | ListNode node
  | MathBlockNode node string
  | RichTextNode annotations "string option" node
  | TextLeaf string

definition doesBlockSupportChildren :: "block_type \<Rightarrow> bool" where
  "doesBlockSupportChildren blockType \<longleftrightarrow>
     blockType \<in> {Bulleted_list_item, Numbered_list_item, Paragraph, Quote}"

text \<open>
  The regular expression \<^verbatim>\<open>/^\${1,2}((?:.|\n)+?)\${1,2}$/\<close> and its group. The opening
  takes two dollar signs if it can and one otherwise; the group is lazy, so it grows one
  character at a time until what is left is the closing, one or two dollar signs at the
  end of the text; the dot takes any character but a line terminator and the
  alternative adds the line feed back, so that only a carriage return stops the group.
\<close>

fun mathGroup :: "string \<Rightarrow> string \<Rightarrow> string option" where
  "mathGroup g [] = None"
| "mathGroup g (c # cs) =
     (if g \<noteq> [] \<and> (c # cs = ''$'' \<or> c # cs = ''$$'') then Some g
      else if c = CHR 0x0D then None
      else mathGroup (g @ [c]) cs)"

definition mathMatch :: "string \<Rightarrow> string option" where
  "mathMatch text =
     (if take 2 text = ''$$'' then
        (case mathGroup [] (drop 2 text) of
           Some g \<Rightarrow> Some g
         | None \<Rightarrow> mathGroup [] (drop 1 text))
      else if take 1 text = ''$'' then mathGroup [] (drop 1 text)
      else None)"

definition getMathExpression :: "node \<Rightarrow> string option" where
  "getMathExpression element =
     (let isMathElement = (textContent element \<noteq> [] \<and> ''math'' \<in> set (classList element))
      in if \<not> isMathElement then None else mathMatch (textContent element))"

text \<open>
  The style and tag inspector \<^verbatim>\<open>getAnnotations\<close> of the \<^verbatim>\<open>annotations\<close> module reads the
  computed style; it is not among the sources at hand and is the parameter \<open>ga\<close> of
  everything that calls it.
\<close>

definition parseRichTextElement :: "(node \<Rightarrow> annotations) \<Rightarrow> node \<Rightarrow> parsed_node" where
  "parseRichTextElement ga element = RichTextNode (ga element) None element"

text \<open>
  \<^verbatim>\<open>/^https?:\/\/.+/\<close> on the anchor's \<^verbatim>\<open>href\<close>, which is the empty string when the anchor
  has none.
\<close>

definition isHttpURL :: "string \<Rightarrow> bool" where
  "isHttpURL url =
     (let rest = (if take 7 url = ''http://'' then Some (drop 7 url)
                  else if take 8 url = ''https://'' then Some (drop 8 url)
                  else None)
      in case rest of
           Some (c # _) \<Rightarrow> c \<noteq> CHR 0x0A \<and> c \<noteq> CHR 0x0D
         | _ \<Rightarrow> False)"

definition href :: "node \<Rightarrow> string" where
  "href element = (case property ''href'' element of Some u \<Rightarrow> u | None \<Rightarrow> [])"

definition parseAnchorElement :: "(node \<Rightarrow> annotations) \<Rightarrow> node \<Rightarrow> parsed_node" where
  "parseAnchorElement ga element =
     RichTextNode (ga element) (if isHttpURL (href element) then Some (href element) else None)
       element"

definition parseBlockElement :: "(node \<Rightarrow> annotations) \<Rightarrow> node \<Rightarrow> block_type \<Rightarrow> parsed_node" where
  "parseBlockElement ga element blockType =
     BlockNode blockType (doesBlockSupportChildren blockType)
       ((ga element)\<lparr>color := None\<rparr>) (color (ga element)) element"

text \<open>
  \<^verbatim>\<open>element.parentElement?.tagName\<close> is the argument \<open>parentTag\<close>: a tree has no pointer
  to the parent, so whoever walks the children passes the parent's tag along (\<open>None\<close>
  for an element without a parent element).
\<close>

definition parseListItemElement :: "(node \<Rightarrow> annotations) \<Rightarrow> string option \<Rightarrow> node \<Rightarrow> parsed_node" where
  "parseListItemElement ga parentTag element =
     (if parentTag = Some ''OL'' then parseBlockElement ga element Numbered_list_item
      else if parentTag = Some ''UL'' then parseBlockElement ga element Bulleted_list_item
      else parseBlockElement ga element Paragraph)"

definition parsePreElement :: "(node \<Rightarrow> annotations) \<Rightarrow> node \<Rightarrow> parsed_node" where
  "parsePreElement ga element =
     (case getMathExpression element of
        Some expression \<Rightarrow> MathBlockNode element expression
      | None \<Rightarrow> parseBlockElement ga element Code)"

definition parseSpanElement :: "(node \<Rightarrow> annotations) \<Rightarrow> node \<Rightarrow> parsed_node" where
  "parseSpanElement ga element =
     (case getMathExpression element of
        Some expression \<Rightarrow> InlineMathNode element expression
      | None \<Rightarrow> parseRichTextElement ga element)"

definition parseTextNode :: "node \<Rightarrow> parsed_node option" where
  "parseTextNode n =
     (if trim (textContent n) = [] then None else Some (TextLeaf (textContent n)))"

definition parseNode :: "(node \<Rightarrow> annotations) \<Rightarrow> string option \<Rightarrow> node \<Rightarrow> parsed_node option" where
  "parseNode ga parentTag n =
     (if isTextNode n then parseTextNode n
      else if \<not> isHTMLElement n then None
      else if tagName n = Some ''BLOCKQUOTE'' then
        Some (BlockNode Quote True noAnnotations None n)
      else if ''highlight'' \<in> set (classList n) then
        Some (RichTextNode (noAnnotations\<lparr>color := Some Yellow_background\<rparr>) None n)
      else if ''citation'' \<in> set (classList n) then
        Some (RichTextNode noAnnotations None n)
      else if tagName n = Some ''P'' then
        Some (BlockNode Paragraph True noAnnotations None n)
      else if tagName n = Some ''A'' then Some (parseAnchorElement ga n)
      else if tagName n \<in> {Some ''BODY'', Some ''DIV'', Some ''P''} then
        Some (parseBlockElement ga n Paragraph)
      else if tagName n = Some ''H1'' then Some (parseBlockElement ga n Heading_1)
      else if tagName n = Some ''H2'' then Some (parseBlockElement ga n Heading_2)
      else if tagName n \<in> {Some ''H3'', Some ''H4'', Some ''H5'', Some ''H6''} then
        Some (parseBlockElement ga n Heading_3)
      else if tagName n = Some ''LI'' then Some (parseListItemElement ga parentTag n)
      else if tagName n \<in> {Some ''OL'', Some ''UL''} then Some (ListNode n)
      else if tagName n = Some ''PRE'' then Some (parsePreElement ga n)
      else if tagName n = Some ''SPAN'' then Some (parseSpanElement ga n)
      else Some (parseRichTextElement ga n))"


section \<open>Rich text of inline content (html-to-notion)\<close>

text \<open>
  \<^verbatim>\<open>RichTextOptions\<close> together with the \<^verbatim>\<open>isAnnotation\<close> flag that the conversion passes
  along in the same object. A key that is absent reads as no annotation, no link and
  \<^verbatim>\<open>false\<close>.
\<close>

record options =
  opt_annotations :: annotations
  opt_link :: "string option"
  preserveWhitespace :: bool
  isAnnotation :: bool

definition topOptions :: "bool \<Rightarrow> options" where
  "topOptions isAnn = \<lparr>opt_annotations = noAnnotations, opt_link = None,
     preserveWhitespace = False, isAnnotation = isAnn\<rparr>"

text \<open>
  \<^verbatim>\<open>buildRichText\<close> of \<^verbatim>\<open>notion-utils\<close> turns a string into spans under the given options;
  it is not among the sources at hand and is the parameter \<open>brt\<close>.
\<close>

type_synonym builder = "string \<Rightarrow> options \<Rightarrow> rich_text"

fun elementOf :: "parsed_node \<Rightarrow> node option" where
  "elementOf (BlockNode _ _ _ _ el) = Some el"
| "elementOf (InlineMathNode el _) = Some el"
| "elementOf (ListNode el) = Some el"
| "elementOf (MathBlockNode el _) = Some el"
| "elementOf (RichTextNode _ _ el) = Some el"
| "elementOf BrNode = None"
| "elementOf (TextLeaf _) = None"

function convertRichTextChildNodes :: "builder \<Rightarrow> (node \<Rightarrow> annotations) \<Rightarrow> node \<Rightarrow> options \<Rightarrow> rich_text"
  and convertRichTextNode :: "builder \<Rightarrow> (node \<Rightarrow> annotations) \<Rightarrow> parsed_node \<Rightarrow> options \<Rightarrow> rich_text"
where
  "convertRichTextChildNodes brt ga n options =
     concat (map (\<lambda>childNode.
        case parseNode ga (tagName n) childNode of
          None \<Rightarrow> []
        | Some parsedNode \<Rightarrow> convertRichTextNode brt ga parsedNode options)
      (childNodes n))"
| "convertRichTextNode brt ga (TextLeaf s) options = brt s options"
| "convertRichTextNode brt ga BrNode options =
     brt [CHR 0x0A] (options\<lparr>preserveWhitespace := True\<rparr>)"
| "convertRichTextNode brt ga (InlineMathNode el e) options = [EquationItem e]"
| "convertRichTextNode brt ga (RichTextNode a l el) options =
     convertRichTextChildNodes brt ga el
       (options\<lparr>opt_annotations := spread (opt_annotations options) a,
                opt_link := override (opt_link options) l\<rparr>)"
| "convertRichTextNode brt ga (BlockNode bt sc a c el) options =
     convertRichTextChildNodes brt ga el options"
| "convertRichTextNode brt ga (ListNode el) options =
     convertRichTextChildNodes brt ga el options"
| "convertRichTextNode brt ga (MathBlockNode el e) options =
     convertRichTextChildNodes brt ga el options"
  by pat_completeness auto
termination
proof (relation "measure (\<lambda>x. case x of
          Inl (brt, ga, n, options) \<Rightarrow> 2 * size n
        | Inr (brt, ga, pn, options) \<Rightarrow>
            (case elementOf pn of Some el \<Rightarrow> 2 * size el + 1 | None \<Rightarrow> 0))",
       goal_cases)
  case 1
  show ?case by simp
next
  case (2 brt ga n options childNode parsedNode)
  have el: "elementOf parsedNode = None \<or> elementOf parsedNode = Some childNode"
    using 2(2)
    by (auto simp: parseNode_def parseTextNode_def parseAnchorElement_def
        parseBlockElement_def parseListItemElement_def parsePreElement_def
        parseSpanElement_def parseRichTextElement_def
        split: if_splits option.splits)
  have "size childNode < size n"
    using 2(1) by (cases n) (auto simp: less_Suc_eq_le size_list_estimation')
  then show ?case using el by auto
qed simp_all

declare convertRichTextChildNodes.simps [simp del]

definition paragraphBlock :: "rich_text \<Rightarrow> block" where
  "paragraphBlock richText = Block Paragraph richText None None"


section \<open>Content results (content-result)\<close>

text \<open>
  Modelled from the spec: the \<^verbatim>\<open>ContentResult\<close> union (module \<^verbatim>\<open>content-result\<close>, not
  among the sources at hand). The specification gives its three variants:
  \<^verbatim>\<open>BlockResult{block}\<close>,
  \<^verbatim>\<open>ListResult{results: BlockResult[]}\<close> (here the list of the blocks of its results) and
  \<^verbatim>\<open>RichTextResult{richText}\<close>.
\<close>

datatype content_result =
    BlockResult block
  | ListResult "block list"
  | RichTextResult rich_text

text \<open>
  The property access \<^verbatim>\<open>result.block\<close>: only a \<^verbatim>\<open>BlockResult\<close> has the property; on the
  other two variants the access yields \<^verbatim>\<open>undefined\<close>.
\<close>

fun blockOf :: "content_result \<Rightarrow> block option" where
  "blockOf (BlockResult b) = Some b"
| "blockOf (ListResult _) = None"
| "blockOf (RichTextResult _) = None"

text \<open>The element type \<^verbatim>\<open>BlockResult | RichTextResult\<close> of what \<^verbatim>\<open>convertChildNodes\<close> returns.\<close>

datatype child_result = ChildBlock block | ChildRichText rich_text

datatype error = TypeError | LocalizableError

section \<open>Parent blocks and lists (html-to-notion)\<close>

text \<open>
  \<^verbatim>\<open>convertChildNodes\<close> hands each child node, as it is, to \<^verbatim>\<open>convertNode\<close>, which takes
  a parsed node and switches on its \<^verbatim>\<open>type\<close>. A document node is not a parsed node. A
  text node or a comment has no property \<^verbatim>\<open>type\<close>, nor have most elements: the switch
  takes its default branch and the call returns \<^verbatim>\<open>undefined\<close>. Where an element does have
  the property (a list, a list item or an anchor reflects its \<^verbatim>\<open>type\<close> attribute) and its
  value is \<^verbatim>\<open>block\<close> or \<^verbatim>\<open>list\<close>, the branch taken reads \<^verbatim>\<open>element\<close> off the document node,
  finds \<^verbatim>\<open>undefined\<close>, and reads a property of that: a \<^verbatim>\<open>TypeError\<close>. This is the
  synchronous \<^verbatim>\<open>convertNode\<close> of the two synchronous variants of the module; the options
  do not change the outcome.
\<close>

definition convertNodeOfDocumentNode :: "node \<Rightarrow> error + content_result option" where
  "convertNodeOfDocumentNode childNode =
     (if property ''type'' childNode = Some ''block'' \<or> property ''type'' childNode = Some ''list''
      then Inl TypeError else Inr None)"

text \<open>The function that \<^verbatim>\<open>convertChildNodes\<close> reduces the child nodes with.\<close>

definition childReducer :: "child_result list \<Rightarrow> content_result option \<Rightarrow> child_result list" where
  "childReducer results result =
     (case result of
        None \<Rightarrow> results
      | Some (BlockResult b) \<Rightarrow> results @ [ChildBlock b]
      | Some (ListResult bs) \<Rightarrow> results @ map ChildBlock bs
      | Some (RichTextResult richText) \<Rightarrow>
          (case rev results of
             ChildRichText prev # _ \<Rightarrow> butlast results @ [ChildRichText (prev @ richText)]
           | _ \<Rightarrow> results @ [ChildRichText richText]))"

fun reduceChildNodes :: "child_result list \<Rightarrow> node list \<Rightarrow> error + child_result list" where
  "reduceChildNodes results [] = Inr results"
| "reduceChildNodes results (childNode # rest) =
     (case convertNodeOfDocumentNode childNode of
        Inl e \<Rightarrow> Inl e
      | Inr result \<Rightarrow> reduceChildNodes (childReducer results result) rest)"

definition convertChildNodes :: "node \<Rightarrow> error + child_result list" where
  "convertChildNodes n = reduceChildNodes [] (childNodes n)"

text \<open>
  The body of the \<^verbatim>\<open>forEach\<close> of \<^verbatim>\<open>convertParentElement\<close>, on the two variables
  \<^verbatim>\<open>rich_text\<close> and \<^verbatim>\<open>children\<close> that it updates; \<^verbatim>\<open>children\<close> starts undefined, and an
  array, even an empty one, is truthy. \<open>attachChild\<close> is the part that both kinds of
  result share: a paragraph that arrives while there is neither text nor children gives
  its rich text and its children to the parent; any other block is appended. The test
  \<^verbatim>\<open>isBlockType('paragraph', childBlock)\<close> is the test for the paragraph constructor.
\<close>

definition attachChild :: "rich_text \<times> block list option \<Rightarrow> block \<Rightarrow> rich_text \<times> block list option" where
  "attachChild state childBlock =
     (case (state, childBlock) of
        (([], None), Block Paragraph paragraphText paragraphChildren _) \<Rightarrow>
          (paragraphText, paragraphChildren)
      | ((rich_text, children), _) \<Rightarrow>
          (rich_text, Some ((case children of None \<Rightarrow> [] | Some cs \<Rightarrow> cs) @ [childBlock])))"

fun parentStep :: "rich_text \<times> block list option \<Rightarrow> child_result \<Rightarrow> rich_text \<times> block list option" where
  "parentStep (rich_text, children) (ChildRichText richText) =
     (let trimmedRichText = trimRichText richText
      in if trimmedRichText = [] then (rich_text, children)
         else if children = None then (rich_text @ trimmedRichText, children)
         else attachChild (rich_text, children) (paragraphBlock trimmedRichText))"
| "parentStep (rich_text, children) (ChildBlock b) = attachChild (rich_text, children) b"

text \<open>
  \<^verbatim>\<open>convertParentElement\<close>, from the block type, colour and element of the parsed node.
  The annotations of the parsed node only go into the options for \<^verbatim>\<open>convertChildNodes\<close>,
  where they change nothing.
\<close>

definition convertParentElement :: "block_type \<Rightarrow> color option \<Rightarrow> node \<Rightarrow> error + content_result" where
  "convertParentElement blockType col element =
     (case convertChildNodes element of
        Inl e \<Rightarrow> Inl e
      | Inr results \<Rightarrow>
          (let (rich_text, children) = foldl parentStep ([], None) results
           in Inr (BlockResult (Block blockType rich_text children col))))"

text \<open>
  \<^verbatim>\<open>convertListElement\<close>: the element children that classify as list items are converted
  as parent blocks, in order; the others are dropped.
\<close>

fun convertListItems :: "(node \<Rightarrow> annotations) \<Rightarrow> string option \<Rightarrow> node list \<Rightarrow> error + block list" where
  "convertListItems ga parentTag [] = Inr []"
| "convertListItems ga parentTag (element # rest) =
     (case parseNode ga parentTag element of
        Some (BlockNode blockType True a col el) \<Rightarrow>
          (if blockType = Bulleted_list_item \<or> blockType = Numbered_list_item then
             (case convertParentElement blockType col el of
                Inl e \<Rightarrow> Inl e
              | Inr r \<Rightarrow>
                  (case convertListItems ga parentTag rest of
                     Inl e \<Rightarrow> Inl e
                   | Inr bs \<Rightarrow> Inr ((case blockOf r of Some b \<Rightarrow> [b] | None \<Rightarrow> []) @ bs)))
           else convertListItems ga parentTag rest)
      | _ \<Rightarrow> convertListItems ga parentTag rest)"

definition convertListElement :: "(node \<Rightarrow> annotations) \<Rightarrow> node \<Rightarrow> error + content_result" where
  "convertListElement ga element =
     (case convertListItems ga (tagName element) (childElements element) of
        Inl e \<Rightarrow> Inl e
      | Inr bs \<Rightarrow> Inr (ListResult bs))"

section \<open>Block elements (html-to-notion: convertBlockElement)\<close>

text \<open>
  The path that every variant of \<^verbatim>\<open>convertBlockElement\<close> ends with: the rich text of the
  element's children, trimmed unless the block is a code block.
\<close>

definition plainBlock :: "builder \<Rightarrow> (node \<Rightarrow> annotations) \<Rightarrow> block_type \<Rightarrow> annotations \<Rightarrow> color option \<Rightarrow> node \<Rightarrow> options \<Rightarrow> content_result" where
  "plainBlock brt ga blockType a col element options =
     (let updatedOptions = options\<lparr>opt_annotations := spread (opt_annotations options) a,
                                  preserveWhitespace := (blockType = Code)\<rparr>;
          rich_text = convertRichTextChildNodes brt ga element updatedOptions;
          rich_text = (if \<not> preserveWhitespace updatedOptions then trimRichText rich_text
                       else rich_text)
      in BlockResult (Block blockType rich_text None col))"

text \<open>
  The variant of \<^verbatim>\<open>html-to-notion.ts\<close> whose conversion is synchronous: an annotation
  paragraph with a highlight or an image becomes a quote.
\<close>

definition convertBlockElement_quote :: "builder \<Rightarrow> (node \<Rightarrow> annotations) \<Rightarrow> block_type \<Rightarrow> annotations \<Rightarrow> color option \<Rightarrow> node \<Rightarrow> options \<Rightarrow> content_result" where
  "convertBlockElement_quote brt ga blockType a col element options =
     (let hasHighlight = (querySelector (byClass ''highlight'') element \<noteq> None);
          hasImage = (querySelector (byTag ''IMG'') element \<noteq> None);
          blockType = (if isAnnotation options \<and> tagName element = Some ''P''
                          \<and> (hasHighlight \<or> hasImage) then Quote else blockType)
      in plainBlock brt ga blockType a col element options)"

text \<open>
  The parts of an annotation paragraph, as the two later variants extract them: the
  highlighted text (the text of the marker's first inner span, or of the marker, without
  its first and last character, trimmed), the text of the node after the citation
  marker, and the paragraph made of the comment and the tags.
\<close>

definition rawText :: "node \<Rightarrow> string" where
  "rawText highlightSpan =
     (case querySelector (byTag ''SPAN'') highlightSpan of
        Some innerSpan \<Rightarrow>
          (if textContent innerSpan \<noteq> [] then textContent innerSpan
           else textContent highlightSpan)
      | None \<Rightarrow> textContent highlightSpan)"

definition highlightedText :: "node \<Rightarrow> string" where
  "highlightedText highlightSpan = trim (slice 1 (- 1) (rawText highlightSpan))"

definition remainingText :: "node \<Rightarrow> string" where
  "remainingText element =
     (case querySelectorWithNext (byClass ''citation'') element of
        Some (citationSpan, Some nextSibling) \<Rightarrow> textContent nextSibling
      | _ \<Rightarrow> [])"

definition codeText :: "string \<Rightarrow> rich_text_item" where
  "codeText s = TextItem s None (noAnnotations\<lparr>code := Some True\<rparr>)"

definition commentParagraph :: "string \<Rightarrow> block" where
  "commentParagraph remaining =
     (let (comment, tagParts) = splitOn CHR ''#'' (trim remaining);
          formattedTags = map (\<lambda>tag. codeText (''#'' @ trim tag)) tagParts
      in Block Paragraph
           (plainText (trim comment @ [CHR 0x0A])
            # slice 0 (- 1) (concat (map (\<lambda>tag. [tag, plainText '' '']) formattedTags)))
           None None)"

text \<open>
  The variant of \<^verbatim>\<open>part_000\<close>: an annotation paragraph with a highlight becomes a
  paragraph without text whose children are a yellow callout, the comment paragraph and
  a divider.
\<close>

definition convertBlockElement_nested :: "builder \<Rightarrow> (node \<Rightarrow> annotations) \<Rightarrow> block_type \<Rightarrow> annotations \<Rightarrow> color option \<Rightarrow> node \<Rightarrow> options \<Rightarrow> content_result" where
  "convertBlockElement_nested brt ga blockType a col element options =
     (if isAnnotation options \<and> tagName element = Some ''P'' then
        (case querySelector (byClass ''highlight'') element of
           Some highlightSpan \<Rightarrow>
             BlockResult (Block Paragraph []
               (Some [Callout [plainText (highlightedText highlightSpan)] None
                        (Some Yellow_background),
                      commentParagraph (remainingText element),
                      Divider])
               None)
         | None \<Rightarrow> plainBlock brt ga blockType a col element options)
      else plainBlock brt ga blockType a col element options)"

section \<open>The synchronous conversion (html-to-notion: convertNode, convertHtmlToBlocks)\<close>

text \<open>
  \<^verbatim>\<open>convertNode\<close> and \<^verbatim>\<open>convertHtmlToBlocks\<close> read the same in the two synchronous
  variants; \<open>cbe\<close> is the variant's \<^verbatim>\<open>convertBlockElement\<close>. \<^verbatim>\<open>convertNode\<close> returns the
  \<^verbatim>\<open>block\<close> property of what the block or the list conversion returns.
\<close>

type_synonym block_converter = "block_type \<Rightarrow> annotations \<Rightarrow> color option \<Rightarrow> node \<Rightarrow> options \<Rightarrow> content_result"

fun convertNode :: "block_converter \<Rightarrow> (node \<Rightarrow> annotations) \<Rightarrow> parsed_node \<Rightarrow> options \<Rightarrow> error + block option" where
  "convertNode cbe ga (BlockNode blockType sc a col element) options =
     Inr (blockOf (cbe blockType a col element options))"
| "convertNode cbe ga (ListNode element) options =
     (case convertListElement ga element of
        Inl e \<Rightarrow> Inl e
      | Inr r \<Rightarrow> Inr (blockOf r))"
| "convertNode cbe ga _ options = Inr None"

text \<open>
  The \<^verbatim>\<open>map\<close> over \<^verbatim>\<open>container.children\<close> followed by \<^verbatim>\<open>filter(Boolean)\<close>: an element that
  does not classify, or converts to \<^verbatim>\<open>undefined\<close>, leaves nothing; an exception ends the
  conversion.
\<close>

fun convertElements :: "block_converter \<Rightarrow> (node \<Rightarrow> annotations) \<Rightarrow> string option \<Rightarrow> options \<Rightarrow> node list \<Rightarrow> error + block list" where
  "convertElements cbe ga parentTag options [] = Inr []"
| "convertElements cbe ga parentTag options (element # rest) =
     (case (case parseNode ga parentTag element of
              None \<Rightarrow> Inr None
            | Some parsedNode \<Rightarrow> convertNode cbe ga parsedNode options) of
        Inl e \<Rightarrow> Inl e
      | Inr r \<Rightarrow>
          (case convertElements cbe ga parentTag options rest of
             Inl e \<Rightarrow> Inl e
           | Inr bs \<Rightarrow> Inr ((case r of Some b \<Rightarrow> [b] | None \<Rightarrow> []) @ bs)))"

text \<open>
  \<^verbatim>\<open>convertHtmlToBlocks\<close>, from what \<^verbatim>\<open>findContainer(parseHTML(html))\<close> yields: the
  container element, or \<open>None\<close> when there is none. The parser and the search for the
  container belong to \<^verbatim>\<open>dom-utils\<close>, outside the sources at hand.
\<close>

definition convertHtmlToBlocks :: "block_converter \<Rightarrow> (node \<Rightarrow> annotations) \<Rightarrow> node option \<Rightarrow> bool \<Rightarrow> error + block list" where
  "convertHtmlToBlocks cbe ga container isAnn =
     (case container of
        None \<Rightarrow> Inr []
      | Some c \<Rightarrow> convertElements cbe ga (tagName c) (topOptions isAnn) (childElements c))"

definition convertHtmlToBlocks_quote :: "builder \<Rightarrow> (node \<Rightarrow> annotations) \<Rightarrow> node option \<Rightarrow> bool \<Rightarrow> error + block list" where
  "convertHtmlToBlocks_quote brt ga = convertHtmlToBlocks (convertBlockElement_quote brt ga) ga"

definition convertHtmlToBlocks_nested :: "builder \<Rightarrow> (node \<Rightarrow> annotations) \<Rightarrow> node option \<Rightarrow> bool \<Rightarrow> error + block list" where
  "convertHtmlToBlocks_nested brt ga = convertHtmlToBlocks (convertBlockElement_nested brt ga) ga"

section \<open>The asynchronous conversion (part_001)\<close>

definition createEmptyAnnotation :: "block list" where
  "createEmptyAnnotation =
     [Callout [plainText ''Empty''] None (Some Yellow_background),
      Block Paragraph [plainText ''No annotation provided''] None None,
      Divider]"

definition createFillerBlocks :: "block list" where
  "createFillerBlocks =
     [Callout [plainText ''Filler''] None (Some Yellow_background),
      Block Paragraph [plainText ''Filler''] None None,
      Divider]"

text \<open>
  The image branch awaits the upload of the annotation's image and decodes the image's
  \<^verbatim>\<open>data-annotation\<close>; whatever throws inside it is caught and answered with the filler
  blocks. The parameter \<open>imageData\<close> is the outcome of these effects for an image
  element: the external URL and the annotation's colour string, or \<open>None\<close> when the
  decoding or the upload throws or the colour is no string. Where the colour mapping
  finds an inherited member instead of a token, the callout's colour is that object,
  which is no colour of the block model: the model leaves the field empty.

  The colour of a highlight comes from \<^verbatim>\<open>getNotionColor\<close> of the \<^verbatim>\<open>annotations\<close> module,
  outside the sources at hand: the parameter \<open>gnc\<close>, with \<open>None\<close> for a falsy result.
\<close>

definition imageBlocks :: "(node \<Rightarrow> (string \<times> string) option) \<Rightarrow> node \<Rightarrow> node \<Rightarrow> block list" where
  "imageBlocks imageData element img =
     (case imageData img of
        None \<Rightarrow> createFillerBlocks
      | Some (imgurUrl, col) \<Rightarrow>
          (let comment = (case querySelectorWithNext (byClass ''citation'') element of
                            Some (citationSpan, Some nextSibling) \<Rightarrow> trim (textContent nextSibling)
                          | _ \<Rightarrow> []);
               notionColor = getNotionColorFromHex col
           in [Callout [plainText comment] (Some [Image imgurUrl])
                 (case notionColor of Token c \<Rightarrow> Some c | PrototypeMember _ \<Rightarrow> None),
               Divider]))"

definition highlightBlocks :: "(node \<Rightarrow> color option) \<Rightarrow> node \<Rightarrow> node \<Rightarrow> block list" where
  "highlightBlocks gnc element highlightSpan =
     (let colorSpan = querySelector (byTag ''SPAN'') highlightSpan;
          notionColor = gnc (case colorSpan of Some s \<Rightarrow> s | None \<Rightarrow> highlightSpan)
      in [Callout [plainText (highlightedText highlightSpan)] None
            (Some (case notionColor of Some c \<Rightarrow> c | None \<Rightarrow> Yellow_background)),
          commentParagraph (remainingText element),
          Divider])"

definition convertBlockElement_async :: "builder \<Rightarrow> (node \<Rightarrow> annotations) \<Rightarrow> (node \<Rightarrow> color option) \<Rightarrow> (node \<Rightarrow> (string \<times> string) option) \<Rightarrow> block_type \<Rightarrow> annotations \<Rightarrow> color option \<Rightarrow> node \<Rightarrow> options \<Rightarrow> content_result" where
  "convertBlockElement_async brt ga gnc imageData blockType a col element options =
     (if isAnnotation options \<and> tagName element = Some ''P'' then
        (case (querySelector (byClass ''highlight'') element,
               querySelector (byTag ''IMG'') element) of
           (_, Some img) \<Rightarrow>
             BlockResult (Block Paragraph [] (Some (imageBlocks imageData element img)) None)
         | (Some highlightSpan, None) \<Rightarrow>
             BlockResult (Block Paragraph [] (Some (highlightBlocks gnc element highlightSpan)) None)
         | (None, None) \<Rightarrow> plainBlock brt ga blockType a col element options)
      else plainBlock brt ga blockType a col element options)"

text \<open>
  The asynchronous \<^verbatim>\<open>convertNode\<close>. The conversion below calls it on what \<^verbatim>\<open>parseNode\<close>
  makes of \<^verbatim>\<open>p\<close> elements only, which is never a list; the list branch, whose outcome
  rests on helpers outside the sources at hand, is left as the \<^verbatim>\<open>undefined\<close> that the
  \<^verbatim>\<open>block\<close> property of a list result is.
\<close>

fun convertNode_async :: "block_converter \<Rightarrow> parsed_node \<Rightarrow> options \<Rightarrow> block option" where
  "convertNode_async cbe (BlockNode blockType sc a col element) options =
     blockOf (cbe blockType a col element options)"
| "convertNode_async cbe _ options = None"

text \<open>
  The asynchronous \<^verbatim>\<open>convertHtmlToBlocks\<close>. All the paragraphs below the container are
  converted, and \<^verbatim>\<open>Promise.all\<close> keeps their order; in annotation mode a paragraph with
  children is replaced by its children (a block that \<^verbatim>\<open>keyValue\<close> built has none, so the
  source's test of the \<^verbatim>\<open>type\<close> tag adds nothing to the test of the children). The
  classifier asks for the parent only of an \<^verbatim>\<open>li\<close> element, so none is passed here.
\<close>

definition flattenResult :: "bool \<Rightarrow> block \<Rightarrow> block list" where
  "flattenResult isAnn result =
     (case result of
        Block Paragraph _ (Some cs) _ \<Rightarrow> if isAnn then cs else [result]
      | _ \<Rightarrow> [result])"

definition convertHtmlToBlocks_async :: "builder \<Rightarrow> (node \<Rightarrow> annotations) \<Rightarrow> (node \<Rightarrow> color option) \<Rightarrow> (node \<Rightarrow> (string \<times> string) option) \<Rightarrow> node option \<Rightarrow> bool \<Rightarrow> block list" where
  "convertHtmlToBlocks_async brt ga gnc imageData container isAnn =
     (case container of
        None \<Rightarrow> createEmptyAnnotation
      | Some c \<Rightarrow>
          (let paragraphs = getElementsByTagName ''P'' c
           in if length paragraphs = 0 then createEmptyAnnotation
              else concat (map (\<lambda>element.
                     case parseNode ga None element of
                       None \<Rightarrow> []
                     | Some parsedNode \<Rightarrow>
                         (case convertNode_async (convertBlockElement_async brt ga gnc imageData)
                                 parsedNode (topOptions isAnn) of
                            None \<Rightarrow> []
                          | Some result \<Rightarrow> flattenResult isAnn result))
                   paragraphs)))"


section \<open>Building the batches of a note (sync-notes: buildNoteBlockBatches)\<close>

text \<open>
  The first variant of \<^verbatim>\<open>buildNoteBlockBatches\<close>: the blocks of the conversion, which
  \<open>converted\<close> stands for, are partitioned; an exception of the conversion is thrown
  again as a \<^verbatim>\<open>LocalizableError\<close>.
\<close>

definition buildNoteBlockBatches :: "int \<Rightarrow> error + block list \<Rightarrow> error + block list list option" where
  "buildNoteBlockBatches limit converted =
     (case converted of
        Inl e \<Rightarrow> Inl LocalizableError
      | Inr blocks \<Rightarrow> Inr (blockBatches limit blocks))"

text \<open>
  The second variant groups the blocks of an annotation note by the colour of their
  callouts before it partitions them.
\<close>

definition colorTitles :: "(color \<times> string) list" where
  "colorTitles =
     [(Yellow_background, ''Highlights''),
      (Red_background, ''Weak Points''),
      (Green_background, ''Strong Points''),
      (Blue_background, ''Unique Points''),
      (Purple_background, ''To Explore''),
      (Default, ''Other Notes'')]"

text \<open>
  \<^verbatim>\<open>colorTitles[color] || color.replace('_background', '').replace('_', ' ').toUpperCase()\<close>
\<close>

definition headingTitle :: "color \<Rightarrow> string" where
  "headingTitle c =
     (case map_of colorTitles c of
        Some title \<Rightarrow> title
      | None \<Rightarrow>
          toUpperCase (replaceFirst ''_'' '' '' (replaceFirst ''_background'' [] (colorToken c))))"

text \<open>
  First pass: the keys of \<^verbatim>\<open>colorGroups\<close>, in the order in which \<^verbatim>\<open>Object.keys\<close> lists
  them. No colour token is a number, so this is the order of their first insertion.
\<close>

fun identifyColors :: "color list \<Rightarrow> block list \<Rightarrow> color list" where
  "identifyColors keys [] = keys"
| "identifyColors keys (Callout rt cs c # rest) =
     (let col = (case c of Some x \<Rightarrow> x | None \<Rightarrow> Default)
      in identifyColors (if col \<in> set keys then keys else keys @ [col]) rest)"
| "identifyColors keys (_ # rest) = identifyColors keys rest"

definition createHeadings :: "color list \<Rightarrow> block list" where
  "createHeadings keys =
     map (\<lambda>c. Block Heading_3 [plainText (headingTitle c)] (Some []) None) keys"

text \<open>
  \<^verbatim>\<open>blocks.find(...)\<close> followed by the \<^verbatim>\<open>push\<close> onto the children of the heading found:
  the first heading whose title is \<^verbatim>\<open>colorTitles[currentCalloutColor]\<close> receives the
  group. For a colour that the table does not have, the title sought is \<^verbatim>\<open>undefined\<close>,
  no heading has it, and nothing changes. The array \<^verbatim>\<open>blocks\<close> holds the headings made
  above and nothing else.
\<close>

fun pushToHeading :: "string option \<Rightarrow> block list \<Rightarrow> block list \<Rightarrow> block list" where
  "pushToHeading title currentGroup [] = []"
| "pushToHeading title currentGroup (Block Heading_3 (TextItem s l a # r) (Some cs) c # rest) =
     (if Some s = title
      then Block Heading_3 (TextItem s l a # r) (Some (cs @ currentGroup)) c # rest
      else Block Heading_3 (TextItem s l a # r) (Some cs) c
           # pushToHeading title currentGroup rest)"
| "pushToHeading title currentGroup (b # rest) = b # pushToHeading title currentGroup rest"

definition addGroup :: "block list \<Rightarrow> color option \<Rightarrow> block list \<Rightarrow> block list" where
  "addGroup blocks currentCalloutColor currentGroup =
     (case currentCalloutColor of
        None \<Rightarrow> blocks
      | Some col \<Rightarrow>
          if length currentGroup > 0
          then pushToHeading (map_of colorTitles col) currentGroup blocks
          else blocks)"

text \<open>
  The split of a paragraph into its comment and its tags. A span with the code
  annotation is a tag; the text of every other span is added to the comment, and for an
  equation, which has no \<^verbatim>\<open>text\<close>, that is a \<^verbatim>\<open>TypeError\<close>.
\<close>

fun splitRichText :: "string \<times> rich_text \<Rightarrow> rich_text \<Rightarrow> error + string \<times> rich_text" where
  "splitRichText (comment, tags) [] = Inr (comment, tags)"
| "splitRichText (comment, tags) (TextItem s l a # rest) =
     (if code a = Some True then splitRichText (comment, tags @ [codeText s]) rest
      else splitRichText (comment @ s, tags) rest)"
| "splitRichText (comment, tags) (EquationItem e # rest) = Inl TypeError"

fun joinTags :: "rich_text \<Rightarrow> rich_text" where
  "joinTags [] = []"
| "joinTags [tag] = [tag]"
| "joinTags (tag # rest) = tag # plainText '' '' # joinTags rest"

definition splitParagraph :: "rich_text \<Rightarrow> error + block list" where
  "splitParagraph richText =
     (case splitRichText ([], []) richText of
        Inl e \<Rightarrow> Inl e
      | Inr (comment, tags) \<Rightarrow>
          Inr ((if trim comment \<noteq> [] then [Block Paragraph [plainText (trim comment)] None None]
                else [])
               @ (if length tags > 0 then [Block Paragraph (joinTags tags) None None] else [])))"

text \<open>
  Second pass, on the state of its three variables: the headings, the colour of the
  current callout and the current group.
\<close>

fun organize :: "block list \<times> color option \<times> block list \<Rightarrow> block list \<Rightarrow> error + block list \<times> color option \<times> block list" where
  "organize state [] = Inr state"
| "organize (blocks, currentCalloutColor, currentGroup) (Callout rt cs c # rest) =
     organize (addGroup blocks currentCalloutColor currentGroup,
               Some (case c of Some x \<Rightarrow> x | None \<Rightarrow> Default),
               [Callout rt cs c]) rest"
| "organize (blocks, currentCalloutColor, currentGroup) (Block Paragraph richText cs c # rest) =
     (if currentCalloutColor \<noteq> None then
        (case splitParagraph richText of
           Inl e \<Rightarrow> Inl e
         | Inr paragraphs \<Rightarrow>
             organize (blocks, currentCalloutColor, currentGroup @ paragraphs) rest)
      else organize (blocks, currentCalloutColor, currentGroup) rest)"
| "organize (blocks, currentCalloutColor, currentGroup) (Divider # rest) =
     (if currentCalloutColor \<noteq> None
      then organize (blocks, currentCalloutColor, currentGroup @ [Divider]) rest
      else organize (blocks, currentCalloutColor, currentGroup) rest)"
| "organize state (_ # rest) = organize state rest"

definition groupByColor :: "block list \<Rightarrow> error + block list" where
  "groupByColor originalBlocks =
     (case organize (createHeadings (identifyColors [] originalBlocks), None, []) originalBlocks of
        Inl e \<Rightarrow> Inl e
      | Inr (blocks, currentCalloutColor, currentGroup) \<Rightarrow>
          Inr (addGroup blocks currentCalloutColor currentGroup))"

definition buildNoteBlockBatches_grouped :: "int \<Rightarrow> bool \<Rightarrow> error + block list \<Rightarrow> error + block list list option" where
  "buildNoteBlockBatches_grouped limit isAnn converted =
     (case (case converted of
              Inl e \<Rightarrow> Inl e
            | Inr originalBlocks \<Rightarrow>
                if isAnn then groupByColor originalBlocks else Inr originalBlocks) of
        Inl e \<Rightarrow> Inl LocalizableError
      | Inr blocks \<Rightarrow> Inr (blockBatches limit blocks))"


section \<open>Collaborators outside the sources, and example documents\<close>

text \<open>
  Modelled from the spec: \<^verbatim>\<open>buildRichText\<close> (module \<^verbatim>\<open>notion-utils\<close>, not among the
  sources at hand). The specification says of it that a text node becomes a span that
  carries the inbound annotations and link.
\<close>

definition buildRichText :: builder where
  "buildRichText s options = [TextItem s (opt_link options) (opt_annotations options)]"

text \<open>
  Modelled from the spec: \<^verbatim>\<open>getAnnotations\<close> (module \<^verbatim>\<open>annotations\<close>, not among the sources
  at hand), for a document without style sheets and inline styles, where only the tag
  name contributes. The specification names the tags: \<open>b\<close> and \<open>strong\<close> for bold, \<open>i\<close>
  and \<open>em\<close> for italic, \<open>code\<close> for code, \<open>s\<close> and \<open>del\<close> for strikethrough, \<open>u\<close> for
  underline.
\<close>

definition getAnnotations :: "node \<Rightarrow> annotations" where
  "getAnnotations element =
     \<lparr>bold = (if tagName element \<in> {Some ''B'', Some ''STRONG''} then Some True else None),
      italic = (if tagName element \<in> {Some ''I'', Some ''EM''} then Some True else None),
      strikethrough = (if tagName element \<in> {Some ''S'', Some ''DEL''} then Some True else None),
      underline = (if tagName element = Some ''U'' then Some True else None),
      code = (if tagName element = Some ''CODE'' then Some True else None),
      color = None\<rparr>"

text \<open>
  Modelled from the spec: \<^verbatim>\<open>getNotionColor\<close> (module \<^verbatim>\<open>annotations\<close>, not among the sources
  at hand). The specification says that the highlight colour is resolved by inspecting
  the inline style for a background colour and normalising that value through the
  lookup table of eight known colours, with the yellow token when the value is not
  recognised. The background colour of the inline style is the element's property
  \<^verbatim>\<open>style.backgroundColor\<close>.
\<close>

definition getNotionColor :: "node \<Rightarrow> color option" where
  "getNotionColor element =
     (case getNotionColorFromHex
             (case property ''style.backgroundColor'' element of Some v \<Rightarrow> v | None \<Rightarrow> []) of
        Token c \<Rightarrow> Some c
      | PrototypeMember _ \<Rightarrow> Some Yellow_background)"

text \<open>An image host that refuses every upload.\<close>

definition uploadFails :: "node \<Rightarrow> (string \<times> string) option" where
  "uploadFails img = None"

text \<open>The fragment \<^verbatim>\<open><div><p>Hello</p></div>\<close>, alone in the body of its document.\<close>

definition helloParagraph :: node where
  "helloParagraph = Element ''P'' [] [] [TextNode ''Hello'']"

definition helloDiv :: node where
  "helloDiv = Element ''DIV'' [] [] [helloParagraph]"

definition helloBody :: node where
  "helloBody = Element ''BODY'' [] [] [helloDiv]"

text \<open>
  An annotation paragraph: a highlight marker whose inner span has the background
  \<^verbatim>\<open>#ffd400\<close> and the text \<open>Key idea\<close> between quotation marks, a citation marker, and
  after it the text \<open>interesting #theory #review\<close>; and a container that holds it.
\<close>

definition keyIdeaSpan :: node where
  "keyIdeaSpan =
     Element ''SPAN'' [] [(''style.backgroundColor'', ''#ffd400'')]
       [TextNode (CHR 0x22 # ''Key idea'' @ [CHR 0x22])]"



text \<open>
  The three blocks of an annotation whose callout has the text \<open>Key idea\<close> and the
  given colour, as the asynchronous conversion yields them.
\<close>

definition keyIdeaTriple :: "color \<Rightarrow> block list" where
  "keyIdeaTriple c =
     [Callout [plainText ''Key idea''] None (Some c),
      Block Paragraph
        [plainText (''interesting'' @ [CHR 0x0A]), codeText ''#theory'', plainText '' '',
         codeText ''#review'']
        None None,
      Divider]"


section \<open>Properties of the batch partition\<close>

lemma slice_window:
  assumes "0 \<le> k" "0 < s"
  shows "slice k (min (k + s) (int (length xs))) xs = take (nat s) (drop (nat k) xs)"
proof (cases "k \<le> int (length xs)")
  case True
  then show ?thesis using assms
    by (auto simp: slice_def Let_def min_def nat_add_distrib)
next
  case False
  then show ?thesis using assms
    by (auto simp: slice_def Let_def min_def)
qed

lemma slice_take_drop:
  assumes "0 \<le> i" "0 < s"
  shows "slice (i * s) (min (i * s + s) (int (length xs))) xs
         = take (nat s) (drop (nat (i * s)) xs)"
proof -
  have "0 \<le> i * s" using assms by simp
  then show ?thesis using assms(2) by (rule slice_window)
qed

lemma chunks_Nil [simp]: "chunks n [] = []"
  by (simp add: chunks.simps)

text \<open>
  The loop computes the chunks of what is left of the array, as long as its bound
  reaches the end of the array.
\<close>

lemma batchLoop_chunks:
  "0 < s \<Longrightarrow> 0 \<le> i \<Longrightarrow> int (length blocks) \<le> n * s \<Longrightarrow>
   batchLoop i n s blocks acc = acc @ chunks (nat s) (drop (nat (i * s)) blocks)"
proof (induction i n s blocks acc rule: batchLoop.induct)
  case (1 i n s blocks acc)
  show ?case
  proof (cases "i < n")
    case False
    then have "n * s \<le> i * s" using "1.prems" by (simp add: mult_right_mono)
    then have "length blocks \<le> nat (i * s)" using "1.prems" by linarith
    then show ?thesis using False by (simp add: batchLoop.simps [of i])
  next
    case True
    let ?b = "take (nat s) (drop (nat (i * s)) blocks)"
    have sl: "slice (i * s) (min (i * s + s) (int (length blocks))) blocks = ?b"
      using "1.prems" by (simp add: slice_take_drop)
    have nx: "nat ((i + 1) * s) = nat (i * s) + nat s"
      using "1.prems" by (simp add: distrib_right nat_add_distrib)
    have IH: "batchLoop (i + 1) n s blocks (if length ?b > 0 then acc @ [?b] else acc)
       = (if length ?b > 0 then acc @ [?b] else acc)
         @ chunks (nat s) (drop (nat ((i + 1) * s)) blocks)"
      using "1.IH" [OF True refl refl refl, unfolded sl] "1.prems" by simp
    have step: "batchLoop i n s blocks acc
       = batchLoop (i + 1) n s blocks (if length ?b > 0 then acc @ [?b] else acc)"
      using True sl by (simp add: batchLoop.simps [of i] Let_def)
    show ?thesis
    proof (cases "drop (nat (i * s)) blocks = []")
      case True
      then show ?thesis using step IH nx by simp
    next
      case False
      then have "chunks (nat s) (drop (nat (i * s)) blocks)
          = ?b # chunks (nat s) (drop (nat ((i + 1) * s)) blocks)"
        using "1.prems" nx by (subst chunks.simps) (simp add: add.commute)
      moreover have "length ?b > 0" using False "1.prems" by simp
      ultimately show ?thesis using step IH by simp
    qed
  qed
qed

lemma concat_chunks: "0 < n \<Longrightarrow> concat (chunks n xs) = xs"
proof (induction n xs rule: chunks.induct)
  case (1 n xs)
  then show ?case by (subst chunks.simps) auto
qed

lemma chunks_bounds: "b \<in> set (chunks n xs) \<Longrightarrow> b \<noteq> [] \<and> length b \<le> n"
proof (induction n xs rule: chunks.induct)
  case (1 n xs)
  show ?case
  proof (cases "n = 0 \<or> xs = []")
    case True
    then show ?thesis using "1.prems" by (simp add: chunks.simps [of n xs])
  next
    case False
    then have "b = take n xs \<or> b \<in> set (chunks n (drop n xs))"
      using "1.prems" by (simp add: chunks.simps [of n xs])
    then show ?thesis
    proof
      assume "b = take n xs"
      then show ?thesis using False by simp
    next
      assume "b \<in> set (chunks n (drop n xs))"
      then show ?thesis using "1.IH" [OF False] by simp
    qed
  qed
qed

lemma ceil_div_cover:
  assumes s: "0 < s"
  shows "int n \<le> max 1 (- ((- int n) div s)) * s"
proof -
  have e: "(- int n) div s * s + (- int n) mod s = - int n"
    by (rule div_mult_mod_eq)
  have m: "0 \<le> (- int n) mod s" using s by (rule pos_mod_sign)
  have "int n \<le> - ((- int n) div s * s)" using e m by linarith
  also have "\<dots> = (- ((- int n) div s)) * s" by simp
  also have "\<dots> \<le> max 1 (- ((- int n) div s)) * s"
    using s by (intro mult_right_mono) simp_all
  finally show ?thesis .
qed

lemma blockBatches_chunks:
  assumes "1 \<le> limit"
  shows "blockBatches limit blocks = Some (chunks (nat (min limit 100)) blocks)"
proof -
  let ?s = "min limit 100"
  let ?n = "max 1 (- ((- int (length blocks)) div ?s))"
  have s: "0 < ?s" using assms by simp
  have "batchLoop 0 ?n ?s blocks [] = [] @ chunks (nat ?s) (drop (nat (0 * ?s)) blocks)"
    using s ceil_div_cover [OF s] by (intro batchLoop_chunks) simp_all
  moreover have "numBatches ?s (length blocks) = Count ?n"
    using s by (simp add: numBatches_def)
  ultimately show ?thesis by (simp add: blockBatches_def Let_def)
qed

lemma blockBatches_empty: "blockBatches limit [] = Some []"
  by (simp add: blockBatches_def numBatches_def Let_def batchLoop.simps [of 0]
      batchLoop.simps [of 1] slice_def)

lemma chunks_250:
  "length xs = 250 \<Longrightarrow> chunks 100 xs = [take 100 xs, take 100 (drop 100 xs), drop 200 xs]"
  by (auto simp: chunks.simps [of _ xs] chunks.simps [of _ "drop _ xs"])

text \<open>
  Claim C4. For a limit of at least one, \<^verbatim>\<open>buildNoteBlockBatches\<close> returns, and what it
  returns is a sequence of non-empty slices of the blocks, none longer than the limit,
  whose concatenation is the sequence of blocks; 250 blocks with a limit of 100 give the
  slices of 100, 100 and 50 blocks in the original order; no blocks give no batch.
\<close>

theorem buildNoteBlockBatches_partition:
  "(1 \<le> limit \<longrightarrow>
      (\<exists>bs. buildNoteBlockBatches limit (Inr blocks) = Inr (Some bs) \<and> concat bs = blocks
         \<and> (\<forall>b \<in> set bs. b \<noteq> [] \<and> int (length b) \<le> limit)))
   \<and> (length blocks = 250 \<longrightarrow>
        buildNoteBlockBatches 100 (Inr blocks)
        = Inr (Some [take 100 blocks, take 100 (drop 100 blocks), drop 200 blocks]))
   \<and> buildNoteBlockBatches limit (Inr []) = Inr (Some [])"
proof (intro conjI impI)
  assume l: "1 \<le> limit"
  let ?bs = "chunks (nat (min limit 100)) blocks"
  have "buildNoteBlockBatches limit (Inr blocks) = Inr (Some ?bs)"
    using l by (simp add: buildNoteBlockBatches_def blockBatches_chunks)
  moreover have "concat ?bs = blocks" using l by (simp add: concat_chunks)
  moreover have "\<forall>b \<in> set ?bs. b \<noteq> [] \<and> int (length b) \<le> limit"
  proof
    fix b assume "b \<in> set ?bs"
    then have "b \<noteq> [] \<and> length b \<le> nat (min limit 100)" by (rule chunks_bounds)
    then show "b \<noteq> [] \<and> int (length b) \<le> limit" using l by auto
  qed
  ultimately show "\<exists>bs. buildNoteBlockBatches limit (Inr blocks) = Inr (Some bs)
      \<and> concat bs = blocks \<and> (\<forall>b \<in> set bs. b \<noteq> [] \<and> int (length b) \<le> limit)"
    by blast
next
  assume "length blocks = 250"
  then show "buildNoteBlockBatches 100 (Inr blocks)
      = Inr (Some [take 100 blocks, take 100 (drop 100 blocks), drop 200 blocks])"
    by (simp add: buildNoteBlockBatches_def blockBatches_chunks chunks_250)
next
  show "buildNoteBlockBatches limit (Inr []) = Inr (Some [])"
    by (simp add: buildNoteBlockBatches_def blockBatches_empty)
qed

theorem buildNoteBlockBatches_partition_witness:
  "(1::int) \<le> 100 \<and> length (replicate 250 Divider) = 250
   \<and> buildNoteBlockBatches 100 (Inr (replicate 250 Divider))
     = Inr (Some [replicate 100 Divider, replicate 100 Divider, replicate 50 Divider])
   \<and> concat [replicate 100 Divider, replicate 100 Divider, replicate 50 Divider]
     = replicate 250 Divider"
proof -
  have h: "length (replicate 250 Divider) = 250" by simp
  have "buildNoteBlockBatches 100 (Inr (replicate 250 Divider))
      = Inr (Some [take 100 (replicate 250 Divider),
                   take 100 (drop 100 (replicate 250 Divider)),
                   drop 200 (replicate 250 Divider)])"
    using buildNoteBlockBatches_partition [of 100 "replicate 250 Divider"] h by blast
  then show ?thesis by (simp flip: replicate_add)
qed

text \<open>
  Claim C10. For a configured limit \<open>L\<close> of at least one, both variants of
  \<^verbatim>\<open>buildNoteBlockBatches\<close> partition into the chunks of \<open>min L 100\<close> blocks (the second
  variant after its grouping, when the note is an annotation note): whatever the limit,
  no batch has more than 100 blocks, and a limit above 100 gives the batches that the
  limit 100 gives.
\<close>

theorem buildNoteBlockBatches_effective_size:
  "1 \<le> limit \<Longrightarrow>
     buildNoteBlockBatches limit (Inr blocks)
       = Inr (Some (chunks (nat (min limit 100)) blocks))
   \<and> buildNoteBlockBatches_grouped limit False (Inr blocks)
       = Inr (Some (chunks (nat (min limit 100)) blocks))
   \<and> (groupByColor blocks = Inr grouped \<longrightarrow>
        buildNoteBlockBatches_grouped limit True (Inr blocks)
        = Inr (Some (chunks (nat (min limit 100)) grouped)))
   \<and> (\<forall>b \<in> set (chunks (nat (min limit 100)) blocks). length b \<le> 100)
   \<and> (\<forall>b \<in> set (chunks (nat (min limit 100)) grouped). length b \<le> 100)
   \<and> buildNoteBlockBatches limit (Inr blocks)
     = buildNoteBlockBatches (min limit 100) (Inr blocks)"
proof (intro conjI impI)
  assume l: "1 \<le> limit"
  show "buildNoteBlockBatches limit (Inr blocks)
       = Inr (Some (chunks (nat (min limit 100)) blocks))"
    using l by (simp add: buildNoteBlockBatches_def blockBatches_chunks)
  show "buildNoteBlockBatches_grouped limit False (Inr blocks)
       = Inr (Some (chunks (nat (min limit 100)) blocks))"
    using l by (simp add: buildNoteBlockBatches_grouped_def blockBatches_chunks)
  show "buildNoteBlockBatches_grouped limit True (Inr blocks)
        = Inr (Some (chunks (nat (min limit 100)) grouped))"
    if "groupByColor blocks = Inr grouped"
    using l that by (simp add: buildNoteBlockBatches_grouped_def blockBatches_chunks)
  have le: "length b \<le> 100" if "b \<in> set (chunks (nat (min limit 100)) xs)"
    for b :: "block list" and xs
  proof -
    have "length b \<le> nat (min limit 100)" using that chunks_bounds by blast
    then show ?thesis by simp
  qed
  show "\<forall>b \<in> set (chunks (nat (min limit 100)) blocks). length b \<le> 100"
    using le by blast
  show "\<forall>b \<in> set (chunks (nat (min limit 100)) grouped). length b \<le> 100"
    using le by blast
  show "buildNoteBlockBatches limit (Inr blocks)
     = buildNoteBlockBatches (min limit 100) (Inr blocks)"
    using l by (simp add: buildNoteBlockBatches_def blockBatches_chunks)
qed

theorem buildNoteBlockBatches_effective_size_witness:
  "(1::int) \<le> 1000
   \<and> buildNoteBlockBatches 1000 (Inr (replicate 250 Divider))
     = Inr (Some [replicate 100 Divider, replicate 100 Divider, replicate 50 Divider])
   \<and> groupByColor [] = Inr []
   \<and> buildNoteBlockBatches_grouped 1000 True (Inr []) = Inr (Some [])"
proof -
  have h: "(1::int) \<le> 1000" by simp
  have g: "groupByColor [] = Inr []"
    by (simp add: groupByColor_def createHeadings_def addGroup_def)
  note t = buildNoteBlockBatches_effective_size [OF h, of _ "[]"]
  have "buildNoteBlockBatches 1000 (Inr (replicate 250 Divider))
      = Inr (Some (chunks 100 (replicate 250 Divider)))"
    using t [of "replicate 250 Divider"] by simp
  moreover have "chunks 100 (replicate 250 Divider)
      = [replicate 100 Divider, replicate 100 Divider, replicate 50 Divider]"
    by (simp add: chunks_250)
  moreover have "buildNoteBlockBatches_grouped 1000 True (Inr []) = Inr (Some [])"
    using t [of "[]"] g by simp
  ultimately show ?thesis using g by simp
qed

text \<open>
  Below one, the limit is no element count. With the limit zero and blocks to send, the
  loop has no end; with a negative limit, one batch holds all but the last blocks.
\<close>

lemma blockBatches_degenerate_limits:
  "blockBatches 0 [Divider] = None
   \<and> blockBatches (- 1) [Divider, Divider, Divider] = Some [[Divider, Divider]]"
  by (simp add: blockBatches_def numBatches_def batchLoop.simps [of 0] batchLoop.simps [of 1]
      slice_def)


section \<open>Properties of trimming\<close>

text \<open>
  Claim C5, amended in its second example. A sequence without spans is returned as it
  is. A single text span is trimmed at both ends, and dropped if nothing is left of it;
  a single equation is returned as it is. Of two or more spans, the first is trimmed at
  its start and the last at its end (each dropped if nothing is left of it, an equation
  kept as it is), and the spans between them are untouched. So the span \<open>" Hi "\<close> alone
  becomes \<open>"Hi"\<close>, while the spans \<open>" Hi "\<close>, \<open>"there"\<close>, \<open>" you "\<close> become
  \<open>"Hi "\<close>, \<open>"there"\<close>, \<open>" you"\<close>: the first span keeps its trailing space and the last one
  its leading space.
\<close>

theorem trimRichText_cases:
  "trimRichText [] = []
   \<and> trimRichText [TextItem c l a] = (if trim c = [] then [] else [TextItem (trim c) l a])
   \<and> trimRichText [EquationItem e] = [EquationItem e]
   \<and> trimRichText (x # middle @ [y])
     = updateContent [x] 0 trimStart @ middle @ updateContent [y] 0 trimEnd
   \<and> updateContent [TextItem c l a] 0 upd
     = (if upd c = [] then [] else [TextItem (upd c) l a])
   \<and> updateContent [EquationItem e] 0 upd = [EquationItem e]
   \<and> trimRichText [plainText '' Hi ''] = [plainText ''Hi'']
   \<and> trimRichText [plainText '' Hi '', plainText ''there'', plainText '' you '']
     = [plainText ''Hi '', plainText ''there'', plainText '' you'']"
proof -
  have mid: "slice 1 (- 1) (x # middle @ [y]) = middle"
    by (simp add: slice_def)
  have "trimRichText (x # middle @ [y])
      = updateContent [x] 0 trimStart @ middle @ updateContent [y] 0 trimEnd"
    unfolding trimRichText_def Let_def mid
    by (simp add: updateContent_def nth_append)
  moreover have "trimRichText [plainText '' Hi ''] = [plainText ''Hi'']"
    by code_simp
  moreover have "trimRichText [plainText '' Hi '', plainText ''there'', plainText '' you '']
      = [plainText ''Hi '', plainText ''there'', plainText '' you'']"
    by code_simp
  ultimately show ?thesis
    by (simp add: trimRichText_def updateContent_def Let_def)
qed

text \<open>
  The second example as the claim has it, with both outer spans trimmed at both ends,
  is not what the function returns.
\<close>

theorem trimRichText_example_counterexample:
  "trimRichText [plainText '' Hi '', plainText ''there'', plainText '' you '']
   \<noteq> [plainText ''Hi'', plainText ''there'', plainText ''you'']"
  by code_simp

section \<open>Properties of the colour normalisation\<close>

lemma trimStart_append_space:
  assumes "list_all isWhiteSpace pre"
  shows "trimStart (pre @ s) = trimStart s"
proof -
  have "dropWhile isWhiteSpace (pre @ s) = dropWhile isWhiteSpace s"
    using assms by (intro dropWhile_append2) (simp add: list_all_iff)
  then show ?thesis by (simp add: trimStart_def)
qed

lemma trimEnd_append_space:
  assumes "list_all isWhiteSpace post"
  shows "trimEnd (s @ post) = trimEnd s"
proof -
  have "dropWhile isWhiteSpace (rev post @ rev s) = dropWhile isWhiteSpace (rev s)"
    using assms by (intro dropWhile_append2) (simp add: list_all_iff)
  then show ?thesis by (simp add: trimEnd_def)
qed

lemma trim_surrounding_space:
  assumes "list_all isWhiteSpace pre" "list_all isWhiteSpace post"
  shows "trim (pre @ s @ post) = trim s"
proof (cases "list_all isWhiteSpace s")
  case True
  then have "trimStart (s @ post) = []" "trimStart s = []"
    using assms(2) by (simp_all add: trimStart_def list_all_iff)
  then show ?thesis using assms(1) by (simp add: trim_def trimStart_append_space)
next
  case False
  then obtain x where "x \<in> set s" "\<not> isWhiteSpace x" by (auto simp: list_all_iff)
  then have "trimStart (s @ post) = trimStart s @ post"
    by (simp add: trimStart_def dropWhile_append1)
  then show ?thesis
    using assms by (simp add: trim_def trimStart_append_space trimEnd_append_space)
qed

lemma of_char_toLowerChar:
  "(of_char (toLowerChar c) :: nat)
   = (let n = of_char c
      in if (65 \<le> n \<and> n \<le> 90) \<or> (192 \<le> n \<and> n \<le> 222 \<and> n \<noteq> 215)
         then n + 32 else n)"
proof -
  have "(of_char c :: nat) < 256" by simp
  then show ?thesis
    by (simp add: toLowerChar_def Let_def)
qed

lemma isWhiteSpace_toLowerChar [simp]: "isWhiteSpace (toLowerChar c) = isWhiteSpace c"
  unfolding isWhiteSpace_def of_char_toLowerChar Let_def
  by auto

lemma list_all_isWhiteSpace_toLowerCase [simp]:
  "list_all isWhiteSpace (toLowerCase s) = list_all isWhiteSpace s"
  by (simp add: toLowerCase_def list_all_iff)

lemma colorMap_keys:
  "map fst colorMap =
     [''#ffd400'', ''#ff6666'', ''#ffb437'', ''#5ff036'', ''#50c8e5'', ''#a28ae5'',
      ''#e56eee'', ''#aaaaaa'', ''rgb(255, 212, 0)'', ''rgb(255, 102, 102)'',
      ''rgb(255, 180, 55)'', ''rgb(95, 240, 54)'', ''rgb(80, 200, 229)'',
      ''rgb(162, 138, 229)'', ''rgb(229, 110, 238)'', ''rgb(170, 170, 170)'']"
  by (simp add: colorMap_def)

text \<open>
  The two names that the table object inherits and that survive the lower-casing: for
  them the lookup finds the inherited member, which is no colour token.
\<close>

lemma getNotionColorFromHex_inherited:
  "getNotionColorFromHex '' Constructor '' = PrototypeMember ''constructor''
   \<and> getNotionColorFromHex ''__proto__'' = PrototypeMember ''__proto__''"
  by code_simp

text \<open>
  Claim C7, amended. The value is lower-cased and trimmed at its two ends, so that case
  and surrounding white space do not matter, and looked up in a table of sixteen keys:
  eight colours, each as a hex string and as an \<open>rgb(r, g, b)\<close> string with one space
  after each comma, mapped to eight background tokens. A value whose normal form is a key
  gives the key's token; a value whose normal form is neither a key nor one of the two
  names \<open>constructor\<close> and \<open>__proto__\<close> gives the yellow background token.
\<close>

theorem getNotionColorFromHex_lookup:
  "(map_of colorMap (trim (toLowerCase s)) = Some c \<longrightarrow> getNotionColorFromHex s = Token c)
   \<and> (trim (toLowerCase t) \<notin> set (map fst colorMap)
        \<and> trim (toLowerCase t) \<noteq> ''constructor'' \<and> trim (toLowerCase t) \<noteq> ''__proto__''
      \<longrightarrow> getNotionColorFromHex t = Token Yellow_background)
   \<and> (list_all isWhiteSpace pre \<and> list_all isWhiteSpace post
      \<longrightarrow> getNotionColorFromHex (pre @ s @ post) = getNotionColorFromHex s)
   \<and> (toLowerCase s = toLowerCase t \<longrightarrow> getNotionColorFromHex s = getNotionColorFromHex t)
   \<and> length colorMap = 16 \<and> distinct (map fst colorMap)
   \<and> set (map snd colorMap)
     = {Yellow_background, Red_background, Orange_background, Green_background,
        Blue_background, Purple_background, Pink_background, Gray_background}"
proof (intro conjI impI)
  assume "map_of colorMap (trim (toLowerCase s)) = Some c"
  then show "getNotionColorFromHex s = Token c"
    by (simp add: getNotionColorFromHex_def)
next
  assume a: "trim (toLowerCase t) \<notin> set (map fst colorMap)
    \<and> trim (toLowerCase t) \<noteq> ''constructor'' \<and> trim (toLowerCase t) \<noteq> ''__proto__''"
  then have "map_of colorMap (trim (toLowerCase t)) = None"
    by (simp add: map_of_eq_None_iff)
  then show "getNotionColorFromHex t = Token Yellow_background"
    using a by (simp add: getNotionColorFromHex_def)
next
  assume "list_all isWhiteSpace pre \<and> list_all isWhiteSpace post"
  then have "trim (toLowerCase pre @ toLowerCase s @ toLowerCase post) = trim (toLowerCase s)"
    by (intro trim_surrounding_space) simp_all
  then show "getNotionColorFromHex (pre @ s @ post) = getNotionColorFromHex s"
    by (simp add: getNotionColorFromHex_def toLowerCase_def)
next
  assume "toLowerCase s = toLowerCase t"
  then show "getNotionColorFromHex s = getNotionColorFromHex t"
    by (simp add: getNotionColorFromHex_def)
next
  show "length colorMap = 16" by (simp add: colorMap_def)
  show "distinct (map fst colorMap)" unfolding colorMap_keys by simp
  show "set (map snd colorMap)
     = {Yellow_background, Red_background, Orange_background, Green_background,
        Blue_background, Purple_background, Pink_background, Gray_background}"
    by (auto simp: colorMap_def)
qed

theorem getNotionColorFromHex_lookup_witness:
  "map_of colorMap (trim (toLowerCase ''#FFD400'')) = Some Yellow_background
   \<and> getNotionColorFromHex ''#FFD400'' = Token Yellow_background
   \<and> trim (toLowerCase ''#ffd4'') \<notin> set (map fst colorMap)
   \<and> getNotionColorFromHex ''#ffd4'' = Token Yellow_background
   \<and> list_all isWhiteSpace '' '' \<and> toLowerCase ''#FFD400'' = toLowerCase ''#ffd400''
   \<and> getNotionColorFromHex ('' '' @ ''#FFD400'' @ '' '') = getNotionColorFromHex ''#ffd400''"
proof -
  have k: "trim (toLowerCase ''#FFD400'') = ''#ffd400''" by code_simp
  have k': "trim (toLowerCase ''#ffd4'') = ''#ffd4''" by code_simp
  have m: "map_of colorMap (trim (toLowerCase ''#FFD400'')) = Some Yellow_background"
    unfolding k by (simp add: colorMap_def)
  have n: "trim (toLowerCase ''#ffd4'') \<notin> set (map fst colorMap)"
    unfolding k' colorMap_keys by simp
  have n': "trim (toLowerCase ''#ffd4'') \<noteq> ''constructor''
      \<and> trim (toLowerCase ''#ffd4'') \<noteq> ''__proto__''"
    unfolding k' by simp
  have w: "list_all isWhiteSpace '' ''" by (simp add: isWhiteSpace_def)
  have l: "toLowerCase ''#FFD400'' = toLowerCase ''#ffd400''" by code_simp
  note a = getNotionColorFromHex_lookup
      [of "''#FFD400''" Yellow_background "''#ffd4''" "'' ''" "'' ''"]
  note b = getNotionColorFromHex_lookup
      [of "''#FFD400''" Yellow_background "''#ffd400''" "'' ''" "'' ''"]
  have 1: "getNotionColorFromHex ''#FFD400'' = Token Yellow_background"
    using a m by blast
  have 2: "getNotionColorFromHex ''#ffd4'' = Token Yellow_background"
    using a n n' by blast
  have 3: "getNotionColorFromHex ('' '' @ ''#FFD400'' @ '' '') = getNotionColorFromHex ''#FFD400''"
    using a w by blast
  have 4: "getNotionColorFromHex ''#FFD400'' = getNotionColorFromHex ''#ffd400''"
    using b l by blast
  show ?thesis using m n w l 1 2 3 4 by (intro conjI) (assumption | simp only:)+
qed

text \<open>
  White space inside the value matters: without the spaces after the commas, the red
  of the table is not found and the yellow default is returned.
\<close>

theorem getNotionColorFromHex_whitespace_counterexample:
  "getNotionColorFromHex ''rgb(255,102,102)'' = Token Yellow_background
   \<and> getNotionColorFromHex ''rgb(255, 102, 102)'' = Token Red_background"
  by code_simp


section \<open>Properties of the classifier\<close>

lemma parseBlockElement_type:
  "\<exists>a c. parseBlockElement ga el bt = BlockNode bt (doesBlockSupportChildren bt) a c el"
  by (simp add: parseBlockElement_def)

text \<open>
  Claim C9. For a list item whose parent is an \<open>ol\<close> the classifier's block type is
  \<open>numbered_list_item\<close>, for one whose parent is a \<open>ul\<close> it is \<open>bulleted_list_item\<close>, and
  in every other case, an absent parent included, it is \<open>paragraph\<close>; there is always a
  result and never an error. \<^verbatim>\<open>parseNode\<close> sends every \<open>li\<close> element that is neither
  a highlight nor a citation marker (the classes come first in its order of rules) to
  this classification, and a list item outside a list then converts to a paragraph
  block in both synchronous variants.
\<close>

theorem parseListItemElement_block_type:
  "parseListItemElement ga (Some ''OL'') el
     = BlockNode Numbered_list_item True ((ga el)\<lparr>color := None\<rparr>) (color (ga el)) el
   \<and> parseListItemElement ga (Some ''UL'') el
     = BlockNode Bulleted_list_item True ((ga el)\<lparr>color := None\<rparr>) (color (ga el)) el
   \<and> (parentTag \<noteq> Some ''OL'' \<and> parentTag \<noteq> Some ''UL'' \<longrightarrow>
        parseListItemElement ga parentTag el
        = BlockNode Paragraph True ((ga el)\<lparr>color := None\<rparr>) (color (ga el)) el)
   \<and> (''highlight'' \<notin> set cl \<and> ''citation'' \<notin> set cl \<longrightarrow>
        parseNode ga parentTag (Element ''LI'' cl ps cs)
        = Some (parseListItemElement ga parentTag (Element ''LI'' cl ps cs)))
   \<and> (parentTag \<noteq> Some ''OL'' \<and> parentTag \<noteq> Some ''UL''
        \<and> ''highlight'' \<notin> set cl \<and> ''citation'' \<notin> set cl \<longrightarrow>
        (\<exists>rt c. convertNode (convertBlockElement_nested brt ga) ga
                   (the (parseNode ga parentTag (Element ''LI'' cl ps cs))) options
                 = Inr (Some (Block Paragraph rt None c)))
        \<and> (\<exists>rt c. convertNode (convertBlockElement_quote brt ga) ga
                   (the (parseNode ga parentTag (Element ''LI'' cl ps cs))) options
                 = Inr (Some (Block Paragraph rt None c))))"
proof (intro conjI impI)
  show "parseListItemElement ga (Some ''OL'') el
     = BlockNode Numbered_list_item True ((ga el)\<lparr>color := None\<rparr>) (color (ga el)) el"
    by (simp add: parseListItemElement_def parseBlockElement_def doesBlockSupportChildren_def)
  show "parseListItemElement ga (Some ''UL'') el
     = BlockNode Bulleted_list_item True ((ga el)\<lparr>color := None\<rparr>) (color (ga el)) el"
    by (simp add: parseListItemElement_def parseBlockElement_def doesBlockSupportChildren_def)
next
  assume "parentTag \<noteq> Some ''OL'' \<and> parentTag \<noteq> Some ''UL''"
  then show "parseListItemElement ga parentTag el
        = BlockNode Paragraph True ((ga el)\<lparr>color := None\<rparr>) (color (ga el)) el"
    by (simp add: parseListItemElement_def parseBlockElement_def doesBlockSupportChildren_def)
next
  assume "''highlight'' \<notin> set cl \<and> ''citation'' \<notin> set cl"
  then show "parseNode ga parentTag (Element ''LI'' cl ps cs)
        = Some (parseListItemElement ga parentTag (Element ''LI'' cl ps cs))"
    by (simp add: parseNode_def)
next
  assume a: "parentTag \<noteq> Some ''OL'' \<and> parentTag \<noteq> Some ''UL''
        \<and> ''highlight'' \<notin> set cl \<and> ''citation'' \<notin> set cl"
  let ?li = "Element ''LI'' cl ps cs"
  have p: "parseNode ga parentTag ?li
      = Some (BlockNode Paragraph True ((ga ?li)\<lparr>color := None\<rparr>) (color (ga ?li)) ?li)"
    using a by (simp add: parseNode_def parseListItemElement_def parseBlockElement_def
        doesBlockSupportChildren_def)
  show "\<exists>rt c. convertNode (convertBlockElement_nested brt ga) ga
                   (the (parseNode ga parentTag ?li)) options
                 = Inr (Some (Block Paragraph rt None c))"
    unfolding p by (simp add: convertBlockElement_nested_def plainBlock_def Let_def)
  show "\<exists>rt c. convertNode (convertBlockElement_quote brt ga) ga
                   (the (parseNode ga parentTag ?li)) options
                 = Inr (Some (Block Paragraph rt None c))"
    unfolding p by (simp add: convertBlockElement_quote_def plainBlock_def Let_def)
qed

theorem parseListItemElement_block_type_witness:
  "parseNode getAnnotations (Some ''DIV'') (Element ''LI'' [] [] [TextNode ''item''])
     = Some (BlockNode Paragraph True noAnnotations None (Element ''LI'' [] [] [TextNode ''item'']))
   \<and> convertNode (convertBlockElement_nested buildRichText getAnnotations) getAnnotations
        (the (parseNode getAnnotations (Some ''DIV'') (Element ''LI'' [] [] [TextNode ''item''])))
        (topOptions False)
      = Inr (Some (Block Paragraph [plainText ''item''] None None))"
proof -
  let ?li = "Element ''LI'' [] [] [TextNode ''item'']"
  have g: "getAnnotations ?li = noAnnotations"
    by (simp add: getAnnotations_def noAnnotations_def)
  have h: "Some ''DIV'' \<noteq> Some ''OL'' \<and> Some ''DIV'' \<noteq> Some ''UL''
      \<and> ''highlight'' \<notin> set [] \<and> ''citation'' \<notin> set ([] :: string list)" by simp
  note t = parseListItemElement_block_type
      [of getAnnotations ?li "Some ''DIV''" "[]" "[]" "[TextNode ''item'']"
        buildRichText "topOptions False"]
  have 1: "parseNode getAnnotations (Some ''DIV'') ?li
      = Some (parseListItemElement getAnnotations (Some ''DIV'') ?li)"
    using t h by blast
  have 2: "parseListItemElement getAnnotations (Some ''DIV'') ?li
      = BlockNode Paragraph True ((getAnnotations ?li)\<lparr>color := None\<rparr>)
          (color (getAnnotations ?li)) ?li"
    using t h by blast
  have 3: "parseNode getAnnotations (Some ''DIV'') ?li
      = Some (BlockNode Paragraph True noAnnotations None ?li)"
    unfolding 1 2 g by (simp add: noAnnotations_def)
  have 4: "convertNode (convertBlockElement_nested buildRichText getAnnotations) getAnnotations
        (the (parseNode getAnnotations (Some ''DIV'') ?li)) (topOptions False)
      = Inr (Some (Block Paragraph [plainText ''item''] None None))"
    unfolding 3 by code_simp
  show ?thesis using 3 4 by simp
qed


section \<open>Properties of the synchronous conversion\<close>

lemma convertListElement_no_block:
  "convertListElement ga el = Inr r \<Longrightarrow> blockOf r = None"
  by (auto simp: convertListElement_def split: sum.splits)






lemma hello_quote:
  "convertHtmlToBlocks_quote buildRichText getAnnotations (Some helloBody) False
   = Inr [Block Paragraph [plainText ''Hello''] None None]"
  by code_simp



text \<open>
  The list of the last example is lost where \<^verbatim>\<open>convertNode\<close> reads the \<^verbatim>\<open>block\<close>
  property of the list result, which has none.
\<close>

lemma top_level_list_leaves_nothing:
  "convertNode cbe ga (ListNode element) options = Inr r \<Longrightarrow> r = None"
  by (auto split: sum.splits dest: convertListElement_no_block)


section \<open>The fragment with a paragraph inside a division\<close>

lemma spread_noAnnotations [simp]: "spread noAnnotations a = a"
  by (simp add: spread_def noAnnotations_def override_def split: option.splits)

lemma trim_Hello: "trim ''Hello'' = ''Hello''"
  by code_simp

lemma trimRichText_Hello:
  "trimRichText [TextItem ''Hello'' l a] = [TextItem ''Hello'' l a]"
  by (simp add: trimRichText_def updateContent_def trim_Hello)

lemma attachChild_paragraph:
  "attachChild ([], None) (Block Paragraph rt cs c) = (rt, cs)"
  by (simp add: attachChild_def)

lemma attachChild_append:
  "rich_text \<noteq> [] \<or> children \<noteq> None \<Longrightarrow>
   attachChild (rich_text, children) b
   = (rich_text, Some ((case children of None \<Rightarrow> [] | Some xs \<Rightarrow> xs) @ [b]))"
  by (auto simp: attachChild_def split: list.splits option.splits block.splits
      block_type.splits)

text \<open>
  Outside annotation mode the fragment \<^verbatim>\<open><div><p>Hello</p></div>\<close> converts to exactly
  one paragraph block, without children, whose rich text is the span that the builder
  makes of the text \<open>Hello\<close>; this holds whether the container is the body around the
  division or the division itself, for every style inspector, and for every builder
  that renders the text as one span. The paragraph is the work of the rich-text walk of
  \<^verbatim>\<open>convertBlockElement\<close>, which flattens the inner paragraph as inline content;
  \<^verbatim>\<open>convertParentElement\<close> takes no part in it.
\<close>

lemma hello_fragment_paragraph:
  assumes "\<forall>options. brt ''Hello'' options
             = [TextItem ''Hello'' (opt_link options) (opt_annotations options)]"
  shows "convertHtmlToBlocks_nested brt ga (Some helloBody) False
           = Inr [Block Paragraph [TextItem ''Hello'' None ((ga helloDiv)\<lparr>color := None\<rparr>)]
                    None (color (ga helloDiv))]
         \<and> convertHtmlToBlocks_quote brt ga (Some helloBody) False
           = Inr [Block Paragraph [TextItem ''Hello'' None ((ga helloDiv)\<lparr>color := None\<rparr>)]
                    None (color (ga helloDiv))]
         \<and> convertHtmlToBlocks_nested brt ga (Some helloDiv) False
           = Inr [Block Paragraph [plainText ''Hello''] None None]
         \<and> convertHtmlToBlocks_quote brt ga (Some helloDiv) False
           = Inr [Block Paragraph [plainText ''Hello''] None None]"
proof -
  have b: "brt ''Hello'' options
      = [TextItem ''Hello'' (opt_link options) (opt_annotations options)]" for options
    using assms by blast
  have pp: "parseNode ga parentTag helloParagraph
      = Some (BlockNode Paragraph True noAnnotations None helloParagraph)" for parentTag
    by (simp add: parseNode_def helloParagraph_def)
  have pd: "parseNode ga parentTag helloDiv
      = Some (BlockNode Paragraph True ((ga helloDiv)\<lparr>color := None\<rparr>) (color (ga helloDiv))
               helloDiv)" for parentTag
    by (simp add: parseNode_def helloDiv_def parseBlockElement_def
        doesBlockSupportChildren_def)
  have pt: "parseNode ga parentTag (TextNode ''Hello'') = Some (TextLeaf ''Hello'')"
    for parentTag
    by (simp add: parseNode_def parseTextNode_def trim_Hello)
  have rp: "convertRichTextChildNodes brt ga helloParagraph options
      = [TextItem ''Hello'' (opt_link options) (opt_annotations options)]" for options
    by (subst convertRichTextChildNodes.simps) (simp add: helloParagraph_def pt b)
  have rd: "convertRichTextChildNodes brt ga helloDiv options
      = [TextItem ''Hello'' (opt_link options) (opt_annotations options)]" for options
    by (subst convertRichTextChildNodes.simps) (simp add: helloDiv_def pp rp)
  have plainP: "plainBlock brt ga Paragraph noAnnotations None helloParagraph (topOptions False)
      = BlockResult (Block Paragraph [plainText ''Hello''] None None)"
    by (simp add: plainBlock_def rp topOptions_def trimRichText_Hello plainText_def)
  have plainD: "plainBlock brt ga Paragraph ((ga helloDiv)\<lparr>color := None\<rparr>) (color (ga helloDiv))
        helloDiv (topOptions False)
      = BlockResult (Block Paragraph [TextItem ''Hello'' None ((ga helloDiv)\<lparr>color := None\<rparr>)]
          None (color (ga helloDiv)))"
    by (simp add: plainBlock_def rd topOptions_def trimRichText_Hello)
  have cb: "childElements helloBody = [helloDiv]" "childElements helloDiv = [helloParagraph]"
    by (simp_all add: childElements_def helloBody_def helloDiv_def helloParagraph_def)
  have 1: "convertHtmlToBlocks_nested brt ga (Some helloBody) False
           = Inr [Block Paragraph [TextItem ''Hello'' None ((ga helloDiv)\<lparr>color := None\<rparr>)]
                    None (color (ga helloDiv))]"
    by (simp add: convertHtmlToBlocks_nested_def convertHtmlToBlocks_def cb pd
        convertBlockElement_nested_def plainD topOptions_def [symmetric])
       (simp add: topOptions_def)
  have 2: "convertHtmlToBlocks_quote brt ga (Some helloBody) False
           = Inr [Block Paragraph [TextItem ''Hello'' None ((ga helloDiv)\<lparr>color := None\<rparr>)]
                    None (color (ga helloDiv))]"
    by (simp add: convertHtmlToBlocks_quote_def convertHtmlToBlocks_def cb pd
        convertBlockElement_quote_def plainD)
       (simp add: topOptions_def)
  have 3: "convertHtmlToBlocks_nested brt ga (Some helloDiv) False
           = Inr [Block Paragraph [plainText ''Hello''] None None]"
    by (simp add: convertHtmlToBlocks_nested_def convertHtmlToBlocks_def cb pp
        convertBlockElement_nested_def plainP)
       (simp add: topOptions_def)
  have 4: "convertHtmlToBlocks_quote brt ga (Some helloDiv) False
           = Inr [Block Paragraph [plainText ''Hello''] None None]"
    by (simp add: convertHtmlToBlocks_quote_def convertHtmlToBlocks_def cb pp
        convertBlockElement_quote_def plainP)
       (simp add: topOptions_def)
  show ?thesis using 1 2 3 4 by blast
qed

text \<open>
  The body of the \<^verbatim>\<open>forEach\<close> of \<^verbatim>\<open>convertParentElement\<close> is written to hoist: were it
  handed the result of a paragraph while the parent has neither text nor children, the
  parent would take the paragraph's rich text and children.
\<close>

lemma parentStep_paragraph:
  "parentStep ([], None) (ChildBlock (Block Paragraph rt cs c)) = (rt, cs)"
  by (simp add: attachChild_paragraph)

text \<open>
  It is never handed one. \<^verbatim>\<open>convertChildNodes\<close> passes the child nodes of the document
  to \<^verbatim>\<open>convertNode\<close>, which expects parsed nodes: every call returns \<^verbatim>\<open>undefined\<close> or
  throws, and the reduction ends with the results it began with.
\<close>

lemma reduceChildNodes_results:
  "reduceChildNodes results nodes = Inl TypeError
   \<or> reduceChildNodes results nodes = Inr results"
proof (induction nodes)
  case Nil
  then show ?case by simp
next
  case (Cons childNode rest)
  then show ?case
    by (simp add: convertNodeOfDocumentNode_def childReducer_def)
qed

text \<open>
  Claim C2. The hoisting of a first paragraph into its parent does not happen:
  whatever the element holds, \<^verbatim>\<open>convertParentElement\<close> either throws a \<^verbatim>\<open>TypeError\<close> or
  returns the block of the given type and colour with no rich text and no children. For
  the list item \<^verbatim>\<open><li><p>Hello</p></li>\<close> it returns a list item without text, where the
  hoisting would give a list item with the text \<open>Hello\<close>; so does the conversion of the
  list \<^verbatim>\<open><ul><li><p>Hello</p></li></ul>\<close>, the only caller of \<^verbatim>\<open>convertParentElement\<close>.
\<close>

theorem convertParentElement_never_hoists:
  "(convertParentElement blockType col element = Inl TypeError
    \<or> convertParentElement blockType col element
      = Inr (BlockResult (Block blockType [] None col)))
   \<and> convertParentElement Bulleted_list_item None (Element ''LI'' [] [] [helloParagraph])
     = Inr (BlockResult (Block Bulleted_list_item [] None None))
   \<and> convertParentElement Bulleted_list_item None (Element ''LI'' [] [] [helloParagraph])
     \<noteq> Inr (BlockResult (Block Bulleted_list_item [plainText ''Hello''] None None))
   \<and> convertListElement getAnnotations
       (Element ''UL'' [] [] [Element ''LI'' [] [] [helloParagraph]])
     = Inr (ListResult [Block Bulleted_list_item [] None None])"
proof -
  have "convertChildNodes element = Inl TypeError \<or> convertChildNodes element = Inr []"
    unfolding convertChildNodes_def by (rule reduceChildNodes_results)
  then have 1: "convertParentElement blockType col element = Inl TypeError
    \<or> convertParentElement blockType col element
      = Inr (BlockResult (Block blockType [] None col))"
    by (auto simp: convertParentElement_def)
  have 2: "convertParentElement Bulleted_list_item None (Element ''LI'' [] [] [helloParagraph])
     = Inr (BlockResult (Block Bulleted_list_item [] None None))"
    by code_simp
  have 3: "convertListElement getAnnotations
       (Element ''UL'' [] [] [Element ''LI'' [] [] [helloParagraph]])
     = Inr (ListResult [Block Bulleted_list_item [] None None])"
    by code_simp
  show ?thesis using 1 3 by (simp add: 2)
qed

text \<open>
  \<^verbatim>\<open>convertParentElement\<close> on the division of the fragment finds no results among the
  child nodes and returns a paragraph without text.
\<close>

lemma convertParentElement_hello:
  "convertParentElement Paragraph None helloDiv
   = Inr (BlockResult (Block Paragraph [] None None))"
  by code_simp


section \<open>A document without a container\<close>

text \<open>
  Claim C6, amended. Without a container, the synchronous conversion returns the empty
  sequence whether or not the note is an annotation note, and the asynchronous
  conversion returns the placeholder of three blocks (a yellow callout \<open>Empty\<close>, a
  paragraph \<open>No annotation provided\<close> and a divider) whether or not it is one.
\<close>

theorem convertHtmlToBlocks_no_container:
  "convertHtmlToBlocks_quote brt ga None isAnn = Inr []
   \<and> convertHtmlToBlocks_nested brt ga None isAnn = Inr []
   \<and> convertHtmlToBlocks_async brt ga gnc imageData None isAnn = createEmptyAnnotation
   \<and> createEmptyAnnotation
     = [Callout [plainText ''Empty''] None (Some Yellow_background),
        Block Paragraph [plainText ''No annotation provided''] None None,
        Divider]"
  by (simp add: convertHtmlToBlocks_quote_def convertHtmlToBlocks_nested_def
      convertHtmlToBlocks_def convertHtmlToBlocks_async_def createEmptyAnnotation_def)

text \<open>
  In annotation mode the synchronous conversion does not return the placeholder, and
  outside annotation mode the asynchronous conversion does not return the empty
  sequence.
\<close>

theorem convertHtmlToBlocks_no_container_counterexample:
  "convertHtmlToBlocks_nested buildRichText getAnnotations None True \<noteq> Inr createEmptyAnnotation
   \<and> convertHtmlToBlocks_quote buildRichText getAnnotations None True \<noteq> Inr createEmptyAnnotation
   \<and> convertHtmlToBlocks_async buildRichText getAnnotations getNotionColor uploadFails None False
     \<noteq> []"
  by (simp add: convertHtmlToBlocks_quote_def convertHtmlToBlocks_nested_def
      convertHtmlToBlocks_def convertHtmlToBlocks_async_def createEmptyAnnotation_def)


section \<open>Annotation paragraphs\<close>











text \<open>
  The class selector of \<^verbatim>\<open>querySelector\<close> finds a marker whatever the case of the
  letters of its class name; the classifier, which asks \<^verbatim>\<open>classList\<close>, does not take
  such an element for a marker.
\<close>

lemma querySelector_class_case:
  "querySelector (byClass ''highlight'')
     (Element ''P'' [] [] [Element ''SPAN'' [''Highlight''] [] [keyIdeaSpan]])
   = Some (Element ''SPAN'' [''Highlight''] [] [keyIdeaSpan])
   \<and> parseNode getAnnotations (Some ''P'') (Element ''SPAN'' [''Highlight''] [] [keyIdeaSpan])
     = Some (RichTextNode noAnnotations None
               (Element ''SPAN'' [''Highlight''] [] [keyIdeaSpan]))"
  by code_simp

text \<open>
  The text of the callout is taken from the marker's first inner span, not from the
  marker, when that span has text.
\<close>

lemma highlightedText_inner_span:
  "highlightedText
     (Element ''SPAN'' [''highlight''] [] [TextNode ''ab'', keyIdeaSpan, TextNode ''cd''])
   = ''Key idea''"
  by code_simp





section \<open>Grouping by colour\<close>

lemma title_yellow: "map_of colorTitles Yellow_background = Some ''Highlights''"
  by (simp add: colorTitles_def)

lemma title_green: "map_of colorTitles Green_background = Some ''Strong Points''"
  by (simp add: colorTitles_def)

lemma groupByColor_pair:
  assumes "c1 \<noteq> c2" "map_of colorTitles c1 = Some t1" "map_of colorTitles c2 = Some t2"
    "t1 \<noteq> t2" "splitParagraph p1 = Inr g1" "splitParagraph p2 = Inr g2"
  shows "groupByColor
           [Callout h1 cs1 (Some c1), Block Paragraph p1 pc1 pk1, Divider,
            Callout h2 cs2 (Some c2), Block Paragraph p2 pc2 pk2, Divider]
         = Inr [Block Heading_3 [plainText t1]
                  (Some (Callout h1 cs1 (Some c1) # g1 @ [Divider])) None,
                Block Heading_3 [plainText t2]
                  (Some (Callout h2 cs2 (Some c2) # g2 @ [Divider])) None]"
  using assms
  by (simp add: groupByColor_def createHeadings_def headingTitle_def addGroup_def
      plainText_def)

text \<open>
  Claim C8, amended. The blocks of two annotation paragraphs whose callouts are yellow
  and green are grouped under exactly two headings, titled \<open>Highlights\<close> and
  \<open>Strong Points\<close> as the table of titles has it, in the order in which the two colours
  are met; a colour that the table does not have gets its token without the suffix, in
  upper case, as the title. The children of each heading are the blocks of its own
  colour and no others: the callout, then the paragraph rendered anew, as a paragraph
  with the trimmed comment if the comment is not blank and a paragraph with the tags if
  there are tags, then the divider. So the paragraph \<open>interesting\<close>, \<open>#theory\<close>,
  \<open>#review\<close> becomes two paragraphs, and the group has four blocks.
\<close>

theorem groupByColor_yellow_green:
  "(splitParagraph p1 = Inr g1 \<and> splitParagraph p2 = Inr g2 \<longrightarrow>
      groupByColor
        [Callout h1 cs1 (Some Yellow_background), Block Paragraph p1 pc1 pk1, Divider,
         Callout h2 cs2 (Some Green_background), Block Paragraph p2 pc2 pk2, Divider]
      = Inr [Block Heading_3 [plainText ''Highlights'']
               (Some (Callout h1 cs1 (Some Yellow_background) # g1 @ [Divider])) None,
             Block Heading_3 [plainText ''Strong Points'']
               (Some (Callout h2 cs2 (Some Green_background) # g2 @ [Divider])) None]
      \<and> groupByColor
        [Callout h2 cs2 (Some Green_background), Block Paragraph p2 pc2 pk2, Divider,
         Callout h1 cs1 (Some Yellow_background), Block Paragraph p1 pc1 pk1, Divider]
      = Inr [Block Heading_3 [plainText ''Strong Points'']
               (Some (Callout h2 cs2 (Some Green_background) # g2 @ [Divider])) None,
             Block Heading_3 [plainText ''Highlights'']
               (Some (Callout h1 cs1 (Some Yellow_background) # g1 @ [Divider])) None])
   \<and> splitParagraph
       [plainText (''interesting'' @ [CHR 0x0A]), codeText ''#theory'', plainText '' '',
        codeText ''#review'']
     = Inr [Block Paragraph [plainText ''interesting''] None None,
            Block Paragraph [codeText ''#theory'', plainText '' '', codeText ''#review'']
              None None]
   \<and> map headingTitle
         [Yellow_background, Red_background, Green_background, Blue_background,
          Purple_background, Default]
     = [''Highlights'', ''Weak Points'', ''Strong Points'', ''Unique Points'', ''To Explore'',
        ''Other Notes'']
   \<and> map headingTitle [Orange_background, Pink_background, Gray_background]
     = [''ORANGE'', ''PINK'', ''GRAY'']
   \<and> buildNoteBlockBatches_grouped 100 True
       (Inr (keyIdeaTriple Yellow_background @ keyIdeaTriple Green_background))
     = Inr (Some
         [[Block Heading_3 [plainText ''Highlights'']
             (Some [Callout [plainText ''Key idea''] None (Some Yellow_background),
                    Block Paragraph [plainText ''interesting''] None None,
                    Block Paragraph [codeText ''#theory'', plainText '' '', codeText ''#review'']
                      None None,
                    Divider])
             None,
           Block Heading_3 [plainText ''Strong Points'']
             (Some [Callout [plainText ''Key idea''] None (Some Green_background),
                    Block Paragraph [plainText ''interesting''] None None,
                    Block Paragraph [codeText ''#theory'', plainText '' '', codeText ''#review'']
                      None None,
                    Divider])
             None]])"
proof (intro conjI impI)
  assume s: "splitParagraph p1 = Inr g1 \<and> splitParagraph p2 = Inr g2"
  show "groupByColor
        [Callout h1 cs1 (Some Yellow_background), Block Paragraph p1 pc1 pk1, Divider,
         Callout h2 cs2 (Some Green_background), Block Paragraph p2 pc2 pk2, Divider]
      = Inr [Block Heading_3 [plainText ''Highlights'']
               (Some (Callout h1 cs1 (Some Yellow_background) # g1 @ [Divider])) None,
             Block Heading_3 [plainText ''Strong Points'']
               (Some (Callout h2 cs2 (Some Green_background) # g2 @ [Divider])) None]"
    using s by (intro groupByColor_pair title_yellow title_green) simp_all
  show "groupByColor
        [Callout h2 cs2 (Some Green_background), Block Paragraph p2 pc2 pk2, Divider,
         Callout h1 cs1 (Some Yellow_background), Block Paragraph p1 pc1 pk1, Divider]
      = Inr [Block Heading_3 [plainText ''Strong Points'']
               (Some (Callout h2 cs2 (Some Green_background) # g2 @ [Divider])) None,
             Block Heading_3 [plainText ''Highlights'']
               (Some (Callout h1 cs1 (Some Yellow_background) # g1 @ [Divider])) None]"
    using s by (intro groupByColor_pair title_yellow title_green) simp_all
next
  show "splitParagraph
       [plainText (''interesting'' @ [CHR 0x0A]), codeText ''#theory'', plainText '' '',
        codeText ''#review'']
     = Inr [Block Paragraph [plainText ''interesting''] None None,
            Block Paragraph [codeText ''#theory'', plainText '' '', codeText ''#review'']
              None None]"
    by code_simp
  show "map headingTitle
         [Yellow_background, Red_background, Green_background, Blue_background,
          Purple_background, Default]
     = [''Highlights'', ''Weak Points'', ''Strong Points'', ''Unique Points'', ''To Explore'',
        ''Other Notes'']"
    by (simp add: headingTitle_def colorTitles_def)
  show "map headingTitle [Orange_background, Pink_background, Gray_background]
     = [''ORANGE'', ''PINK'', ''GRAY'']"
    by code_simp
  show "buildNoteBlockBatches_grouped 100 True
       (Inr (keyIdeaTriple Yellow_background @ keyIdeaTriple Green_background))
     = Inr (Some
         [[Block Heading_3 [plainText ''Highlights'']
             (Some [Callout [plainText ''Key idea''] None (Some Yellow_background),
                    Block Paragraph [plainText ''interesting''] None None,
                    Block Paragraph [codeText ''#theory'', plainText '' '', codeText ''#review'']
                      None None,
                    Divider])
             None,
           Block Heading_3 [plainText ''Strong Points'']
             (Some [Callout [plainText ''Key idea''] None (Some Green_background),
                    Block Paragraph [plainText ''interesting''] None None,
                    Block Paragraph [codeText ''#theory'', plainText '' '', codeText ''#review'']
                      None None,
                    Divider])
             None]])"
    by code_simp
qed

theorem groupByColor_yellow_green_witness:
  "splitParagraph [plainText ''note''] = Inr [Block Paragraph [plainText ''note''] None None]
   \<and> splitParagraph [codeText ''#tag''] = Inr [Block Paragraph [codeText ''#tag''] None None]
   \<and> groupByColor
        [Callout [plainText ''one''] None (Some Yellow_background),
         Block Paragraph [plainText ''note''] None None, Divider,
         Callout [plainText ''two''] None (Some Green_background),
         Block Paragraph [codeText ''#tag''] None None, Divider]
      = Inr [Block Heading_3 [plainText ''Highlights'']
               (Some [Callout [plainText ''one''] None (Some Yellow_background),
                      Block Paragraph [plainText ''note''] None None, Divider]) None,
             Block Heading_3 [plainText ''Strong Points'']
               (Some [Callout [plainText ''two''] None (Some Green_background),
                      Block Paragraph [codeText ''#tag''] None None, Divider]) None]"
proof -
  have 1: "splitParagraph [plainText ''note'']
      = Inr [Block Paragraph [plainText ''note''] None None]"
    by code_simp
  have 2: "splitParagraph [codeText ''#tag'']
      = Inr [Block Paragraph [codeText ''#tag''] None None]"
    by code_simp
  note t = groupByColor_yellow_green
    [of "[plainText ''note'']" "[Block Paragraph [plainText ''note''] None None]"
        "[codeText ''#tag'']" "[Block Paragraph [codeText ''#tag''] None None]"
        "[plainText ''one'']" None None None "[plainText ''two'']" None None None]
  have "groupByColor
        [Callout [plainText ''one''] None (Some Yellow_background),
         Block Paragraph [plainText ''note''] None None, Divider,
         Callout [plainText ''two''] None (Some Green_background),
         Block Paragraph [codeText ''#tag''] None None, Divider]
      = Inr [Block Heading_3 [plainText ''Highlights'']
               (Some (Callout [plainText ''one''] None (Some Yellow_background)
                      # [Block Paragraph [plainText ''note''] None None] @ [Divider])) None,
             Block Heading_3 [plainText ''Strong Points'']
               (Some (Callout [plainText ''two''] None (Some Green_background)
                      # [Block Paragraph [codeText ''#tag''] None None] @ [Divider])) None]"
    using t 1 2 by blast
  then show ?thesis using 1 2 by simp
qed

text \<open>
  The children of the two headings are not the triples that went in: the paragraph of
  each triple has been replaced by two paragraphs.
\<close>

theorem groupByColor_triples_counterexample:
  "groupByColor (keyIdeaTriple Yellow_background @ keyIdeaTriple Green_background)
   \<noteq> Inr [Block Heading_3 [plainText ''Highlights'']
            (Some (keyIdeaTriple Yellow_background)) None,
          Block Heading_3 [plainText ''Strong Points'']
            (Some (keyIdeaTriple Green_background)) None]"
  by code_simp

end
